theory Spec2Isabelle
  imports Complex_Main "HOL-Library.Word"
begin

section \<open>PeerTalk temperature sender: the data model\<close>

text \<open>
  A shallow embedding of \<^verbatim>\<open>src/raspberry-pi/peertalk_temp_sender.py\<close>.
  Python's unbounded integers are \<open>int\<close>, its floats are \<open>real\<close> (rounding is
  not modelled), byte strings are lists of 8-bit words, and a \<open>dict\<close> is an
  association list in insertion order, which is the order \<open>json.dumps\<close> writes.
  Every call that leaves the program (socket, clock, sleep, random generator,
  thermocouple driver) takes its result from an environment record and is
  appended to the trace of the world, so the order of effects can be read off.
\<close>

type_synonym byte = "8 word"

text \<open>Lines 10-12: the module constants.\<close>

definition IPAD_PORT :: int where
  "IPAD_PORT = 2345"

definition FRAME_TYPE_TEMPERATURE :: int where
  "FRAME_TYPE_TEMPERATURE = 100"

definition PTPROTOCOL_VERSION :: int where
  "PTPROTOCOL_VERSION = 1"

text \<open>
  Exceptions. \<open>exc\<close> are the subclasses of Python's \<open>Exception\<close> that the program
  can meet; \<open>raised\<close> adds \<open>KeyboardInterrupt\<close>, which derives from
  \<open>BaseException\<close> only and so passes every \<^verbatim>\<open>except Exception\<close> clause.
\<close>

datatype exc =
    StructError | IndexError | TypeError
  | SocketTimeout | ConnectionRefusedError | OSError
  | DriverError

datatype raised = Exception exc | KeyboardInterrupt

text \<open>A board of the driver: \<^verbatim>\<open>sm_tc.SMtc(stack_level)\<close>.\<close>

datatype handle = SMtc nat

text \<open>The values that end up in a snapshot, and the payload argument of a frame.\<close>

datatype json = JFloat real | JStr string | JList "json list"

type_synonym py_dict = "(string \<times> json) list"

datatype payload = PDict py_dict | PBytes "byte list"

text \<open>Console lines, by the statement that prints them (the text itself is not modelled).\<close>

datatype log_msg =
    LogChtProbeError int exc
  | LogEgtProbeError int exc
  | LogSendError exc
  | LogConnected
  | LogConnectTimeout
  | LogConnectRefused
  | LogConnectError exc
  | LogRetrying
  | LogStartStreaming
  | LogFrameSent nat bool
  | LogFailedAfter nat
  | LogStopping
  | LogMainLoopError nat exc
  | LogDisconnected nat
  | LogShuttingDown
  | LogFatal exc

datatype event =
    EvConnect nat "raised option"
  | EvSendAll nat "byte list" "raised option"
  | EvClose nat "raised option"
  | EvSleep nat "raised option"
  | EvGetTemp handle int "exc + real"
  | EvRandom real
  | EvTime real
  | EvLog log_msg
  | EvExit int

text \<open>
  The environment answers the n-th call of each kind; the clock is read at the
  position of the call in the trace. \<open>env_float_repr\<close> stands for Python's
  \<open>float.__repr__\<close>, which \<open>json.dumps\<close> uses and which is not part of the
  repository.
\<close>

record env =
  env_connect :: "nat \<Rightarrow> raised option"
  env_sendall :: "nat \<Rightarrow> raised option"
  env_close :: "nat \<Rightarrow> raised option"
  env_sleep :: "nat \<Rightarrow> raised option"
  env_get_temp :: "nat \<Rightarrow> handle \<Rightarrow> int \<Rightarrow> exc + real"
  env_random :: "nat \<Rightarrow> real"
  env_time :: "nat \<Rightarrow> real"
  env_float_repr :: "real \<Rightarrow> string"

record world =
  trace :: "event list"
  n_connect :: nat
  n_sendall :: nat
  n_close :: nat
  n_sleep :: nat
  n_get_temp :: nat
  n_random :: nat

definition world0 :: world where
  "world0 = \<lparr>trace = [], n_connect = 0, n_sendall = 0, n_close = 0, n_sleep = 0,
     n_get_temp = 0, n_random = 0\<rparr>"

definition emit :: "event \<Rightarrow> world \<Rightarrow> world" where
  "emit e w = w\<lparr>trace := trace w @ [e]\<rparr>"

definition print_log :: "log_msg \<Rightarrow> world \<Rightarrow> world" where
  "print_log m w = emit (EvLog m) w"

section \<open>Frame codec (lines 137-167)\<close>

text \<open>
  \<^verbatim>\<open>struct.pack('>I', v)\<close>: four bytes, most significant first;
  \<open>struct.error\<close> when \<open>v\<close> does not fit an unsigned 32-bit field.
\<close>

definition u32_be :: "int \<Rightarrow> byte list" where
  "u32_be v = [word_of_int (v div 16777216), word_of_int (v div 65536),
               word_of_int (v div 256), word_of_int v]"

definition fits_u32 :: "int \<Rightarrow> bool" where
  "fits_u32 v = (0 \<le> v \<and> v < 4294967296)"

definition struct_pack_IIII :: "int \<Rightarrow> int \<Rightarrow> int \<Rightarrow> int \<Rightarrow> exc + byte list" where
  "struct_pack_IIII a b c d =
     (if fits_u32 a \<and> fits_u32 b \<and> fits_u32 c \<and> fits_u32 d
      then Inr (u32_be a @ u32_be b @ u32_be c @ u32_be d)
      else Inl StructError)"

text \<open>
  The reader's side, used only to state the round trip: four unsigned
  big-endian 32-bit fields read back from exactly 16 bytes
  (\<^verbatim>\<open>struct.unpack('>IIII', ...)\<close>).
\<close>

fun be_to_int :: "byte list \<Rightarrow> int" where
  "be_to_int [] = 0"
| "be_to_int (b # bs) = uint b * 256 ^ length bs + be_to_int bs"

definition decode_header :: "byte list \<Rightarrow> (int \<times> int \<times> int \<times> int) option" where
  "decode_header bs =
     (if length bs = 16
      then Some (be_to_int (take 4 bs), be_to_int (take 4 (drop 4 bs)),
                 be_to_int (take 4 (drop 8 bs)), be_to_int (take 4 (drop 12 bs)))
      else None)"

text \<open>
  \<^verbatim>\<open>json.dumps(d).encode('utf-8')\<close> with the default separators. The output of
  \<open>json.dumps\<close> is ASCII (\<open>ensure_ascii\<close>), so its UTF-8 encoding is one byte per
  character. The keys and strings of this program need no escaping.
\<close>

fun intercalate :: "'a list \<Rightarrow> 'a list list \<Rightarrow> 'a list" where
  "intercalate sep [] = []"
| "intercalate sep [x] = x"
| "intercalate sep (x # y # ys) = x @ sep @ intercalate sep (y # ys)"

definition quoted :: "string \<Rightarrow> string" where
  "quoted s = [CHR 0x22] @ s @ [CHR 0x22]"

fun json_dumps_value :: "(real \<Rightarrow> string) \<Rightarrow> json \<Rightarrow> string" where
  "json_dumps_value repr (JFloat x) = repr x"
| "json_dumps_value repr (JStr s) = quoted s"
| "json_dumps_value repr (JList xs) =
     ''['' @ intercalate '', '' (map (json_dumps_value repr) xs) @ '']''"

definition json_dumps :: "(real \<Rightarrow> string) \<Rightarrow> py_dict \<Rightarrow> string" where
  "json_dumps repr d =
     ''{'' @ intercalate '', ''
        (map (\<lambda>(k, v). quoted k @ '': '' @ json_dumps_value repr v) d) @ ''}''"

definition encode_utf8 :: "string \<Rightarrow> byte list" where
  "encode_utf8 s = map (\<lambda>c. word_of_nat (of_char c)) s"

definition payload_bytes_of :: "env \<Rightarrow> payload \<Rightarrow> byte list" where
  "payload_bytes_of en payload_data =
     (case payload_data of
        PDict d \<Rightarrow> encode_utf8 (json_dumps (env_float_repr en) d)
      | PBytes b \<Rightarrow> b)"

text \<open>\<^verbatim>\<open>sock.sendall(data)\<close>: returns, or raises what the environment says.\<close>

definition sock_sendall :: "env \<Rightarrow> nat \<Rightarrow> byte list \<Rightarrow> world \<Rightarrow> raised option \<times> world" where
  "sock_sendall en sock data w =
     (let r = env_sendall en (n_sendall w)
      in (r, w\<lparr>trace := trace w @ [EvSendAll sock data r], n_sendall := Suc (n_sendall w)\<rparr>))"

text \<open>
  \<open>send_peertalk_frame\<close>: \<open>Inr True\<close> and \<open>Inr False\<close> are the two returns; an
  \<open>Inl\<close> is a \<open>KeyboardInterrupt\<close> of \<open>sendall\<close>, which the \<^verbatim>\<open>except Exception\<close>
  clause does not catch.
\<close>

definition send_peertalk_frame ::
  "env \<Rightarrow> nat \<Rightarrow> int \<Rightarrow> payload \<Rightarrow> world \<Rightarrow> (raised + bool) \<times> world" where
  "send_peertalk_frame en sock frame_type payload_data w =
     (let payload_bytes = payload_bytes_of en payload_data
      in case struct_pack_IIII PTPROTOCOL_VERSION frame_type 0 (int (length payload_bytes)) of
           Inl e \<Rightarrow> (Inr False, print_log (LogSendError e) w)
         | Inr frame_header \<Rightarrow>
             (case sock_sendall en sock (frame_header @ payload_bytes) w of
                (None, w') \<Rightarrow> (Inr True, w')
              | (Some (Exception e), w') \<Rightarrow> (Inr False, print_log (LogSendError e) w')
              | (Some KeyboardInterrupt, w') \<Rightarrow> (Inl KeyboardInterrupt, w')))"

section \<open>Channel reader (lines 23-110)\<close>

record SMTCReader =
  egt_sensor :: "handle option"
  cht_sensor :: "handle option"
  hardware_available :: bool
  thermocouple_type :: int
  egt_channel_map :: "int list"
  cht_channel_map :: "int list"

text \<open>
  \<open>__init__\<close>: \<open>smtc_available\<close> is the module flag of line 17, and
  \<open>board_present l\<close> says whether \<^verbatim>\<open>sm_tc.SMtc(l)\<close> returns a board rather than
  raising. The channel configuration of lines 57-70 only talks to the boards and
  the console and leaves the fields as they are.
\<close>

definition SMTCReader_init :: "bool \<Rightarrow> (nat \<Rightarrow> bool) \<Rightarrow> SMTCReader" where
  "SMTCReader_init smtc_available board_present =
     (let self = \<lparr>egt_sensor = None, cht_sensor = None, hardware_available = False,
                   thermocouple_type = 3,
                   egt_channel_map = [1, 2, 3, 4, 7, 8],
                   cht_channel_map = [1, 2, 3, 4, 7, 8]\<rparr>
      in if \<not> smtc_available then self
         else
           (let self1 = (if board_present 0 then self\<lparr>egt_sensor := Some (SMtc 0)\<rparr> else self);
                self2 = (if board_present 1 then self1\<lparr>cht_sensor := Some (SMtc 1)\<rparr> else self1)
            in self2\<lparr>hardware_available :=
                        (egt_sensor self2 \<noteq> None \<or> cht_sensor self2 \<noteq> None)\<rparr>))"

text \<open>\<^verbatim>\<open>xs[i]\<close> on a Python list: a negative index counts from the end.\<close>

definition list_getitem :: "'a list \<Rightarrow> int \<Rightarrow> exc + 'a" where
  "list_getitem xs i =
     (if 0 \<le> i \<and> i < int (length xs) then Inr (xs ! nat i)
      else if i < 0 \<and> - int (length xs) \<le> i then Inr (xs ! nat (int (length xs) + i))
      else Inl IndexError)"

text \<open>
  \<^verbatim>\<open>sensor.get_temp(channel)\<close>: a temperature in Celsius, or a failure of the
  driver, which is an \<open>Exception\<close>. Interrupts are modelled where the program
  blocks: in connect, write, close and sleep.
\<close>

definition get_temp :: "env \<Rightarrow> handle \<Rightarrow> int \<Rightarrow> world \<Rightarrow> (exc + real) \<times> world" where
  "get_temp en sensor channel w =
     (let r = env_get_temp en (n_get_temp w) sensor channel
      in (r, w\<lparr>trace := trace w @ [EvGetTemp sensor channel r],
                n_get_temp := Suc (n_get_temp w)\<rparr>))"

text \<open>
  \<^verbatim>\<open>random.uniform(a, b)\<close> is \<^verbatim>\<open>a + (b - a) * random()\<close> in CPython, where
  \<open>random()\<close> lies in the half-open interval from 0 to 1.
\<close>

definition random_uniform :: "env \<Rightarrow> real \<Rightarrow> real \<Rightarrow> world \<Rightarrow> real \<times> world" where
  "random_uniform en a b w =
     (let u = env_random en (n_random w)
      in (a + (b - a) * u,
          w\<lparr>trace := trace w @ [EvRandom u], n_random := Suc (n_random w)\<rparr>))"

text \<open>The body of the \<open>try\<close> of \<open>read_cht_probe\<close> (lines 77-88), then the whole method.\<close>

definition read_cht_probe_try ::
  "SMTCReader \<Rightarrow> env \<Rightarrow> int \<Rightarrow> world \<Rightarrow> (exc + real) \<times> world" where
  "read_cht_probe_try self en probe_id w =
     (case cht_sensor self of
        Some sensor \<Rightarrow>
          if probe_id < 0 \<or> probe_id \<ge> int (length (cht_channel_map self)) then (Inr 0, w)
          else
            (case list_getitem (cht_channel_map self) probe_id of
               Inl e \<Rightarrow> (Inl e, w)
             | Inr channel \<Rightarrow>
                 (case get_temp en sensor channel w of
                    (Inl e, w') \<Rightarrow> (Inl e, w')
                  | (Inr temp_c, w') \<Rightarrow> (Inr (temp_c * 9 / 5 + 32), w')))
      | None \<Rightarrow>
          (case random_uniform en 0 100 w of (u, w') \<Rightarrow> (Inr (300 + u), w')))"

definition read_cht_probe :: "SMTCReader \<Rightarrow> env \<Rightarrow> int \<Rightarrow> world \<Rightarrow> real \<times> world" where
  "read_cht_probe self en probe_id w =
     (case read_cht_probe_try self en probe_id w of
        (Inr temp, w') \<Rightarrow> (temp, w')
      | (Inl e, w') \<Rightarrow> (0, print_log (LogChtProbeError (probe_id + 1) e) w'))"

text \<open>\<open>read_egt_probe\<close> (lines 93-110), likewise.\<close>

definition read_egt_probe_try ::
  "SMTCReader \<Rightarrow> env \<Rightarrow> int \<Rightarrow> world \<Rightarrow> (exc + real) \<times> world" where
  "read_egt_probe_try self en probe_id w =
     (case egt_sensor self of
        Some sensor \<Rightarrow>
          if probe_id < 0 \<or> probe_id \<ge> int (length (egt_channel_map self)) then (Inr 0, w)
          else
            (case list_getitem (egt_channel_map self) probe_id of
               Inl e \<Rightarrow> (Inl e, w)
             | Inr channel \<Rightarrow>
                 (case get_temp en sensor channel w of
                    (Inl e, w') \<Rightarrow> (Inl e, w')
                  | (Inr temp_c, w') \<Rightarrow> (Inr (temp_c * 9 / 5 + 32), w')))
      | None \<Rightarrow>
          (case random_uniform en 0 300 w of (u, w') \<Rightarrow> (Inr (1200 + u), w')))"

definition read_egt_probe :: "SMTCReader \<Rightarrow> env \<Rightarrow> int \<Rightarrow> world \<Rightarrow> real \<times> world" where
  "read_egt_probe self en probe_id w =
     (case read_egt_probe_try self en probe_id w of
        (Inr temp, w') \<Rightarrow> (temp, w')
      | (Inl e, w') \<Rightarrow> (0, print_log (LogEgtProbeError (probe_id + 1) e) w'))"

section \<open>Sampler (lines 115-135)\<close>

definition py_range :: "nat \<Rightarrow> int list" where
  "py_range n = map int [0..<n]"

text \<open>
  One \<open>for\<close> loop of \<open>read_temperature_data\<close>: each probe is read and its value
  appended to the list collected so far.
\<close>

fun read_probes ::
  "(int \<Rightarrow> world \<Rightarrow> real \<times> world) \<Rightarrow> int list \<Rightarrow> real list \<Rightarrow> world \<Rightarrow> real list \<times> world" where
  "read_probes rd [] temps w = (temps, w)"
| "read_probes rd (probe_id # rest) temps w =
     (case rd probe_id w of (temp, w') \<Rightarrow> read_probes rd rest (temps @ [temp]) w')"

definition time_time :: "env \<Rightarrow> world \<Rightarrow> real \<times> world" where
  "time_time en w = (let t = env_time en (length (trace w)) in (t, emit (EvTime t) w))"

definition read_temperature_data :: "SMTCReader \<Rightarrow> env \<Rightarrow> world \<Rightarrow> py_dict \<times> world" where
  "read_temperature_data sensor_reader en w =
     (case read_probes (read_cht_probe sensor_reader en) (py_range 6) [] w of
        (cht_temps, w1) \<Rightarrow>
          (case read_probes (read_egt_probe sensor_reader en) (py_range 6) [] w1 of
             (egt_temps, w2) \<Rightarrow>
               (case time_time en w2 of
                  (t, w3) \<Rightarrow>
                    ([(''cht'', JList (map JFloat cht_temps)),
                      (''egt'', JList (map JFloat egt_temps)),
                      (''timestamp'', JFloat t),
                      (''unit'', JStr ''F'')], w3))))"

section \<open>Transport supervisor (lines 169-247)\<close>

text \<open>
  \<open>connect_to_ipad\<close>: the socket is named by the number of the attempt that
  created it. \<open>Inr None\<close> is the return of \<open>None\<close>; an interrupt passes through.
\<close>

definition connect_to_ipad :: "env \<Rightarrow> world \<Rightarrow> (raised + nat option) \<times> world" where
  "connect_to_ipad en w =
     (let ipad_sock = n_connect w;
          r = env_connect en (n_connect w);
          w1 = w\<lparr>trace := trace w @ [EvConnect ipad_sock r], n_connect := Suc (n_connect w)\<rparr>
      in case r of
           None \<Rightarrow> (Inr (Some ipad_sock), print_log LogConnected w1)
         | Some (Exception e) \<Rightarrow>
             (Inr None,
              print_log (if e = SocketTimeout then LogConnectTimeout
                         else if e = ConnectionRefusedError then LogConnectRefused
                         else LogConnectError e) w1)
         | Some KeyboardInterrupt \<Rightarrow> (Inl KeyboardInterrupt, w1))"

definition time_sleep :: "env \<Rightarrow> nat \<Rightarrow> world \<Rightarrow> raised option \<times> world" where
  "time_sleep en secs w =
     (let r = env_sleep en (n_sleep w)
      in (r, w\<lparr>trace := trace w @ [EvSleep secs r], n_sleep := Suc (n_sleep w)\<rparr>))"

definition sock_close :: "env \<Rightarrow> nat \<Rightarrow> world \<Rightarrow> raised option \<times> world" where
  "sock_close en sock w =
     (let r = env_close en (n_close w)
      in (r, w\<lparr>trace := trace w @ [EvClose sock r], n_close := Suc (n_close w)\<rparr>))"

text \<open>
  The body of the inner \<open>try\<close> (lines 216-230). \<open>Inr True\<close>: the \<open>break\<close> of line
  228 was taken; \<open>Inr False\<close>: the body ran to its end; \<open>Inl\<close>: it raised.
  The averages of lines 222-223 only feed the printed line.
\<close>

definition stream_sleep :: "env \<Rightarrow> nat \<Rightarrow> world \<Rightarrow> (raised + bool) \<times> nat \<times> world" where
  "stream_sleep en frame_num w =
     (case time_sleep en 1 w of
        (None, w') \<Rightarrow> (Inr False, frame_num, w')
      | (Some e, w') \<Rightarrow> (Inl e, frame_num, w'))"

definition stream_try ::
  "SMTCReader \<Rightarrow> env \<Rightarrow> nat \<Rightarrow> nat \<Rightarrow> world \<Rightarrow> (raised + bool) \<times> nat \<times> world" where
  "stream_try sensor_reader en sock frame_num w =
     (case read_temperature_data sensor_reader en w of
        (temp_data, w1) \<Rightarrow>
          if temp_data \<noteq> [] then
            (case send_peertalk_frame en sock FRAME_TYPE_TEMPERATURE (PDict temp_data) w1 of
               (Inl e, w2) \<Rightarrow> (Inl e, frame_num + 1, w2)
             | (Inr sent, w2) \<Rightarrow>
                 if sent then
                   stream_sleep en (frame_num + 1)
                     (print_log (LogFrameSent (frame_num + 1) (hardware_available sensor_reader)) w2)
                 else (Inr True, frame_num + 1, print_log (LogFailedAfter (frame_num + 1)) w2))
          else stream_sleep en frame_num w1)"

text \<open>
  The inner \<open>while True\<close> (lines 213-237), with fuel. The result says whether the
  loop was left (\<open>True\<close>) or is still running when the fuel is spent (\<open>False\<close>).
\<close>

fun stream_loop ::
  "nat \<Rightarrow> SMTCReader \<Rightarrow> env \<Rightarrow> nat \<Rightarrow> nat \<Rightarrow> world \<Rightarrow> bool \<times> nat \<times> world" where
  "stream_loop 0 sensor_reader en sock frame_num w = (False, frame_num, w)"
| "stream_loop (Suc fuel) sensor_reader en sock frame_num w =
     (case stream_try sensor_reader en sock frame_num w of
        (Inr brk, frame_num', w') \<Rightarrow>
          if brk then (True, frame_num', w')
          else stream_loop fuel sensor_reader en sock frame_num' w'
      | (Inl KeyboardInterrupt, frame_num', w') \<Rightarrow>
          (True, frame_num', print_log LogStopping w')
      | (Inl (Exception e), frame_num', w') \<Rightarrow>
          (True, frame_num', print_log (LogMainLoopError frame_num' e) w'))"

text \<open>
  The body of the outer \<open>try\<close> (lines 201-240). \<open>None\<close>: the streaming loop is
  still running; \<open>Some (Inr ())\<close>: the body ended (by the \<open>continue\<close> of line 207
  or after line 240); \<open>Some (Inl e)\<close>: it raised \<open>e\<close>.
\<close>

definition main_try ::
  "nat \<Rightarrow> SMTCReader \<Rightarrow> env \<Rightarrow> world \<Rightarrow> (raised + unit) option \<times> world" where
  "main_try fuel sensor_reader en w =
     (case connect_to_ipad en w of
        (Inl e, w1) \<Rightarrow> (Some (Inl e), w1)
      | (Inr None, w1) \<Rightarrow>
          (case time_sleep en 5 (print_log LogRetrying w1) of
             (None, w2) \<Rightarrow> (Some (Inr ()), w2)
           | (Some e, w2) \<Rightarrow> (Some (Inl e), w2))
      | (Inr (Some sock), w1) \<Rightarrow>
          (case stream_loop fuel sensor_reader en sock 0 (print_log LogStartStreaming w1) of
             (left, frame_num, w2) \<Rightarrow>
               if left then
                 (case sock_close en sock w2 of
                    (None, w3) \<Rightarrow> (Some (Inr ()), print_log (LogDisconnected frame_num) w3)
                  | (Some e, w3) \<Rightarrow> (Some (Inl e), w3))
               else (None, w2)))"

text \<open>
  The outer \<open>while True\<close> (lines 199-247), with fuel. \<open>sys.exit(0)\<close> ends the
  process with exit code 0; an exception raised inside the last handler (by its
  \<open>time.sleep(5)\<close>) is caught by nothing and leaves \<open>main\<close>.
\<close>

datatype outcome = OutOfFuel | Exited int | Uncaught raised

fun main_loop :: "nat \<Rightarrow> SMTCReader \<Rightarrow> env \<Rightarrow> world \<Rightarrow> outcome \<times> world" where
  "main_loop 0 sensor_reader en w = (OutOfFuel, w)"
| "main_loop (Suc fuel) sensor_reader en w =
     (case main_try fuel sensor_reader en w of
        (None, w') \<Rightarrow> (OutOfFuel, w')
      | (Some (Inr u), w') \<Rightarrow> main_loop fuel sensor_reader en w'
      | (Some (Inl KeyboardInterrupt), w') \<Rightarrow>
          (Exited 0, emit (EvExit 0) (print_log LogShuttingDown w'))
      | (Some (Inl (Exception e)), w') \<Rightarrow>
          (case time_sleep en 5 (print_log (LogFatal e) w') of
             (None, w'') \<Rightarrow> main_loop fuel sensor_reader en w''
           | (Some e', w'') \<Rightarrow> (Uncaught e', w'')))"

text \<open>\<open>main\<close>: the banner of lines 191-197 is not recorded; then the loop, from the empty world.\<close>

definition main :: "nat \<Rightarrow> SMTCReader \<Rightarrow> env \<Rightarrow> outcome \<times> world" where
  "main fuel sensor_reader en = main_loop fuel sensor_reader en world0"

section \<open>Observations on traces\<close>

text \<open>The byte strings handed to \<open>sendall\<close>, in order, whether or not the call returned.\<close>

fun frames_written :: "event list \<Rightarrow> byte list list" where
  "frames_written [] = []"
| "frames_written (EvSendAll sock data r # es) = data # frames_written es"
| "frames_written (e # es) = frames_written es"

text \<open>The times read from the clock, and the number of probe readings, in a trace.\<close>

fun clock_reads :: "event list \<Rightarrow> real list" where
  "clock_reads [] = []"
| "clock_reads (EvTime t # es) = t # clock_reads es"
| "clock_reads (e # es) = clock_reads es"

fun probe_reads :: "event list \<Rightarrow> nat" where
  "probe_reads [] = 0"
| "probe_reads (EvGetTemp h c r # es) = Suc (probe_reads es)"
| "probe_reads (EvRandom u # es) = Suc (probe_reads es)"
| "probe_reads (e # es) = probe_reads es"

text \<open>
  The trace as the supervisor sees it: the events of sampling (reads of boards,
  random draws, clock reads and the lines printed by the readers) are dropped,
  and the bytes of a write are blanked.
\<close>

fun supervisor_view :: "event list \<Rightarrow> event list" where
  "supervisor_view [] = []"
| "supervisor_view (EvSendAll sock data r # es) = EvSendAll sock [] r # supervisor_view es"
| "supervisor_view (EvGetTemp h c r # es) = supervisor_view es"
| "supervisor_view (EvRandom u # es) = supervisor_view es"
| "supervisor_view (EvTime t # es) = supervisor_view es"
| "supervisor_view (EvLog (LogChtProbeError i e) # es) = supervisor_view es"
| "supervisor_view (EvLog (LogEgtProbeError i e) # es) = supervisor_view es"
| "supervisor_view (e # es) = e # supervisor_view es"

text \<open>
  The tag field of a frame, read back; and what a temperature frame is: the
  header of version 1, type 100 and tag 0, then the JSON text of a dictionary
  with the keys \<open>cht\<close>, \<open>egt\<close>, \<open>timestamp\<close> and \<open>unit\<close> in this order,
  six floats under each of the first two and the string \<open>F\<close> under the last.
\<close>

definition tag_of :: "byte list \<Rightarrow> int" where
  "tag_of frame = be_to_int (take 4 (drop 8 frame))"

definition is_temperature_frame :: "env \<Rightarrow> byte list \<Rightarrow> bool" where
  "is_temperature_frame en frame =
     (\<exists>cht egt t payload.
        length cht = 6 \<and> length egt = 6
      \<and> payload = encode_utf8 (json_dumps (env_float_repr en)
           [(''cht'', JList (map JFloat cht)), (''egt'', JList (map JFloat egt)),
            (''timestamp'', JFloat t), (''unit'', JStr ''F'')])
      \<and> fits_u32 (int (length payload))
      \<and> frame = u32_be 1 @ u32_be 100 @ u32_be 0 @ u32_be (int (length payload)) @ payload)"

text \<open>
  The same frame byte by byte, with nothing of the program in it. The first
  twelve bytes are the version 1, the type 100 and the tag 0; the length field,
  read back, is the number of bytes after the header; and these bytes, as
  numbers, are the character codes of the text
  \<^verbatim>\<open>{"cht": [c0, c1, c2, c3, c4, c5], "egt": [e0, e1, e2, e3, e4, e5], "timestamp": t, "unit": "F"}\<close>
  where each float stands as \<open>repr\<close> prints it. For instance 123, 34, 99, 104,
  116, 34, 58, 32, 91 are the codes of the opening brace, the quoted key
  \<open>cht\<close>, the colon, the space and the opening bracket, and 44, 32 those of
  the comma and the space that separate two items.
\<close>

definition is_json_snapshot_frame :: "(real \<Rightarrow> string) \<Rightarrow> byte list \<Rightarrow> bool" where
  "is_json_snapshot_frame repr frame =
     (\<exists>c0 c1 c2 c3 c4 c5 e0 e1 e2 e3 e4 e5 t.
        take 12 frame = [0, 0, 0, 1, 0, 0, 0, 100, 0, 0, 0, 0]
      \<and> be_to_int (take 4 (drop 12 frame)) = int (length (drop 16 frame))
      \<and> map unat (drop 16 frame) =
          [123, 34, 99, 104, 116, 34, 58, 32, 91]
          @ map of_char (repr c0) @ [44, 32] @ map of_char (repr c1) @ [44, 32]
          @ map of_char (repr c2) @ [44, 32] @ map of_char (repr c3) @ [44, 32]
          @ map of_char (repr c4) @ [44, 32] @ map of_char (repr c5)
          @ [93, 44, 32, 34, 101, 103, 116, 34, 58, 32, 91]
          @ map of_char (repr e0) @ [44, 32] @ map of_char (repr e1) @ [44, 32]
          @ map of_char (repr e2) @ [44, 32] @ map of_char (repr e3) @ [44, 32]
          @ map of_char (repr e4) @ [44, 32] @ map of_char (repr e5)
          @ [93, 44, 32, 34, 116, 105, 109, 101, 115, 116, 97, 109, 112, 34, 58, 32]
          @ map of_char (repr t)
          @ [44, 32, 34, 117, 110, 105, 116, 34, 58, 32, 34, 70, 34, 125])"

section \<open>Steps between worlds\<close>

text \<open>
  A step of sampling: the trace grows by events that neither read the clock nor
  touch the socket, and the counters of the socket and of sleep stay.
\<close>

definition sample_step :: "world \<Rightarrow> world \<Rightarrow> bool" where
  "sample_step w w' =
     (\<exists>es. trace w' = trace w @ es \<and> clock_reads es = [] \<and> frames_written es = []
        \<and> supervisor_view es = []
        \<and> n_connect w' = n_connect w \<and> n_sendall w' = n_sendall w
        \<and> n_close w' = n_close w \<and> n_sleep w' = n_sleep w)"

text \<open>
  A sweep step that reads \<open>k\<close> probes: the trace grows by events without a
  clock read, \<open>k\<close> of them readings of a probe.
\<close>

definition reads_step :: "nat \<Rightarrow> world \<Rightarrow> world \<Rightarrow> bool" where
  "reads_step k w w' =
     (\<exists>es. trace w' = trace w @ es \<and> clock_reads es = [] \<and> probe_reads es = k)"

text \<open>
  What the supervisor has done between two worlds: the events added to its view
  and the calls made to connect, write, close and sleep.
\<close>

definition sup_adv ::
  "world \<Rightarrow> event list \<Rightarrow> nat \<Rightarrow> nat \<Rightarrow> nat \<Rightarrow> nat \<Rightarrow> world \<Rightarrow> bool" where
  "sup_adv w evs a b c d w' =
     (supervisor_view (trace w') = supervisor_view (trace w) @ evs
      \<and> n_connect w' = n_connect w + a \<and> n_sendall w' = n_sendall w + b
      \<and> n_close w' = n_close w + c \<and> n_sleep w' = n_sleep w + d)"

text \<open>Between two worlds only frames with a given property were written.\<close>

definition frames_adv :: "(byte list \<Rightarrow> bool) \<Rightarrow> world \<Rightarrow> world \<Rightarrow> bool" where
  "frames_adv P w w' =
     (\<exists>fs. frames_written (trace w') = frames_written (trace w) @ fs \<and> list_all P fs)"

section \<open>Rounds of the supervisor\<close>

text \<open>One failed connect attempt as it shows in the trace: attempt, printed line, retry line, sleep.\<close>

definition retry_round :: "env \<Rightarrow> nat \<Rightarrow> event list" where
  "retry_round en k =
     (case env_connect en k of
        Some (Exception e) \<Rightarrow>
          [EvConnect k (Some (Exception e)),
           EvLog (if e = SocketTimeout then LogConnectTimeout
                  else if e = ConnectionRefusedError then LogConnectRefused
                  else LogConnectError e),
           EvLog LogRetrying,
           EvSleep 5 None]
      | _ \<Rightarrow> [])"

text \<open>One frame written and confirmed, as the supervisor sees it: write, printed line, sleep.\<close>

definition sent_round :: "nat \<Rightarrow> bool \<Rightarrow> nat \<Rightarrow> event list" where
  "sent_round sock live k = [EvSendAll sock [] None, EvLog (LogFrameSent k live), EvSleep 1 None]"

text \<open>
  Python prints a float in at most 24 characters; the bound taken here is 32.
  With it the payload of a snapshot always fits the length field.
\<close>

definition float_repr_bounded :: "env \<Rightarrow> bool" where
  "float_repr_bounded en = (\<forall>x. length (env_float_repr en x) \<le> 32)"

section \<open>Environments and readers for the examples\<close>

text \<open>
  An environment in which nothing fails: every connect, write, close and sleep
  returns, each board reads 100 degrees Celsius, the generator draws one half,
  the clock shows the position in the trace, and every float prints as \<open>0.0\<close>.
\<close>

definition env_quiet :: env where
  "env_quiet = \<lparr>env_connect = (\<lambda>n. None), env_sendall = (\<lambda>n. None),
     env_close = (\<lambda>n. None), env_sleep = (\<lambda>n. None),
     env_get_temp = (\<lambda>n h c. Inr 100), env_random = (\<lambda>n. 1 / 2),
     env_time = (\<lambda>n. real n), env_float_repr = (\<lambda>x. ''0.0'')\<rparr>"

text \<open>As \<open>env_quiet\<close>, but every read of a board fails.\<close>

definition env_faulty :: env where
  "env_faulty = env_quiet\<lparr>env_get_temp := (\<lambda>n h c. Inl DriverError)\<rparr>"

text \<open>As \<open>env_quiet\<close>, but every connect attempt is refused.\<close>

definition env_refusing :: env where
  "env_refusing = env_quiet\<lparr>env_connect := (\<lambda>n. Some (Exception ConnectionRefusedError))\<rparr>"

text \<open>As \<open>env_quiet\<close>, but the third write fails.\<close>

definition env_third_write_fails :: env where
  "env_third_write_fails =
     env_quiet\<lparr>env_sendall := (\<lambda>n. if n = 2 then Some (Exception OSError) else None)\<rparr>"

text \<open>As \<open>env_quiet\<close>, but the first sleep is interrupted.\<close>

definition env_interrupt_once :: env where
  "env_interrupt_once =
     env_quiet\<lparr>env_sleep := (\<lambda>n. if n = 0 then Some KeyboardInterrupt else None)\<rparr>"

text \<open>
  Python prints a float whose value is a whole number from 0 to below
  \<open>10 ^ 16\<close> as its decimal digits followed by \<open>.0\<close>. \<open>repr_whole\<close> is this
  printing; the examples use it on such values only.
\<close>

fun decimal :: "nat \<Rightarrow> string" where
  "decimal n =
     (if n < 10 then [''0123456789'' ! n]
      else decimal (n div 10) @ [''0123456789'' ! (n mod 10)])"

definition repr_whole :: "real \<Rightarrow> string" where
  "repr_whole x = decimal (nat \<lfloor>x\<rfloor>) @ ''.0''"

text \<open>As \<open>env_quiet\<close>, but floats print as Python prints them.\<close>

definition env_whole :: env where
  "env_whole = env_quiet\<lparr>env_float_repr := repr_whole\<rparr>"

text \<open>Two readers: the driver missing (simulation), and both boards present.\<close>

definition no_boards :: "nat \<Rightarrow> bool" where
  "no_boards l = False"

definition all_boards :: "nat \<Rightarrow> bool" where
  "all_boards l = True"

definition sim_reader :: SMTCReader where
  "sim_reader = SMTCReader_init False no_boards"

definition hw_reader :: SMTCReader where
  "hw_reader = SMTCReader_init True all_boards"

section \<open>The frame codec: layout and round trip\<close>

lemma frames_written_append [simp]:
  "frames_written (xs @ ys) = frames_written xs @ frames_written ys"
  by (induction xs rule: frames_written.induct) simp_all

lemma length_u32_be [simp]: "length (u32_be v) = 4"
  by (simp add: u32_be_def)

lemma be_to_int_u32_be:
  assumes "fits_u32 v"
  shows "be_to_int (u32_be v) = v"
proof -
  have v: "0 \<le> v" "v < 4294967296"
    using assms by (simp_all add: fits_u32_def)
  define d1 where "d1 = v div 256"
  define d2 where "d2 = d1 div 256"
  define d3 where "d3 = d2 div 256"
  have e2: "v div 65536 = d2"
    unfolding d2_def d1_def by (simp add: zdiv_zmult2_eq [symmetric])
  have e3: "v div 16777216 = d3"
    unfolding d3_def d2_def d1_def by (simp add: zdiv_zmult2_eq [symmetric])
  have s1: "v = d1 * 256 + v mod 256"
    unfolding d1_def by simp
  have s2: "d1 = d2 * 256 + d1 mod 256"
    unfolding d2_def by simp
  have s3: "d2 = d3 * 256 + d2 mod 256"
    unfolding d3_def by simp
  have "0 \<le> d3" "d3 < 256"
    using v e3 [symmetric] by simp_all
  then have s4: "d3 mod 256 = d3"
    by simp
  have "be_to_int (u32_be v) =
      (d3 mod 256) * 16777216 + (d2 mod 256) * 65536 + (d1 mod 256) * 256 + v mod 256"
    by (simp add: u32_be_def uint_word_of_int e2 e3 d1_def [symmetric])
  also have "\<dots> = v"
    using s1 s2 s3 s4 by linarith
  finally show ?thesis .
qed

lemma u32_be_1: "u32_be 1 = [0, 0, 0, 1]"
  by (simp add: u32_be_def)

lemma u32_be_0: "u32_be 0 = [0, 0, 0, 0]"
  by (simp add: u32_be_def)

lemma fits_u32_consts [simp]: "fits_u32 0" "fits_u32 1" "fits_u32 100"
  by (simp_all add: fits_u32_def)

text \<open>What one call of \<open>send_peertalk_frame\<close> hands to \<open>sendall\<close>, for any arguments.\<close>

lemma send_peertalk_frame_written:
  "frames_written (trace (snd (send_peertalk_frame en sock frame_type pd w))) =
     frames_written (trace w) @
     (if fits_u32 frame_type \<and> fits_u32 (int (length (payload_bytes_of en pd)))
      then [u32_be 1 @ u32_be frame_type @ u32_be 0
              @ u32_be (int (length (payload_bytes_of en pd))) @ payload_bytes_of en pd]
      else [])"
  by (simp add: send_peertalk_frame_def struct_pack_IIII_def sock_sendall_def
      PTPROTOCOL_VERSION_def print_log_def emit_def Let_def
      split: option.split raised.split)

lemma header_fields:
  fixes p :: "byte list"
  assumes "fits_u32 t" "fits_u32 (int (length p))"
  defines "frame \<equiv> u32_be 1 @ u32_be t @ u32_be 0 @ u32_be (int (length p)) @ p"
  shows "length frame = 16 + length p"
    and "take 4 frame = [0, 0, 0, 1]"
    and "be_to_int (take 4 (drop 4 frame)) = t"
    and "take 4 (drop 8 frame) = [0, 0, 0, 0]"
    and "be_to_int (take 4 (drop 12 frame)) = int (length p)"
    and "drop 16 frame = p"
    and "decode_header (take 16 frame) = Some (1, t, 0, int (length p))"
  using assms(1,2)
  by (simp_all add: frame_def decode_header_def be_to_int_u32_be
      u32_be_1 [symmetric] u32_be_0 [symmetric] del: be_to_int.simps)

text \<open>
  C1. For every frame type that fits the 32-bit type field and every payload
  whose length fits the 32-bit length field, \<open>send_peertalk_frame\<close> hands
  \<open>sendall\<close> exactly one byte string: a 16-byte header followed immediately by
  the payload. The header holds, big-endian and four bytes each, the version 1
  at offset 0, the frame type at offset 4, the tag (the constant 0 of line 159)
  at offset 8 and the byte length of the payload at offset 12; decoding the
  first 16 bytes gives back (version, type, tag, payloadSize), and payloadSize
  is the length of the bytes that remain.
\<close>

theorem send_peertalk_frame_layout:
  assumes "fits_u32 frame_type"
    and "fits_u32 (int (length (payload_bytes_of en pd)))"
  shows "\<exists>frame.
      frames_written (trace (snd (send_peertalk_frame en sock frame_type pd w))) =
        frames_written (trace w) @ [frame]
    \<and> frame = u32_be 1 @ u32_be frame_type @ u32_be 0
          @ u32_be (int (length (payload_bytes_of en pd))) @ payload_bytes_of en pd
    \<and> length frame = 16 + length (payload_bytes_of en pd)
    \<and> take 4 frame = [0, 0, 0, 1]
    \<and> be_to_int (take 4 (drop 4 frame)) = frame_type
    \<and> take 4 (drop 8 frame) = [0, 0, 0, 0]
    \<and> be_to_int (take 4 (drop 12 frame)) = int (length (payload_bytes_of en pd))
    \<and> drop 16 frame = payload_bytes_of en pd
    \<and> decode_header (take 16 frame) = Some (1, frame_type, 0, int (length (drop 16 frame)))"
  using assms header_fields [OF assms]
  by (simp add: send_peertalk_frame_written)

theorem send_peertalk_frame_layout_witness:
  "fits_u32 100
   \<and> fits_u32 (int (length (payload_bytes_of env_quiet (PBytes [104, 105]))))
   \<and> (\<exists>frame.
        frames_written (trace (snd (send_peertalk_frame env_quiet 0 100 (PBytes [104, 105]) world0)))
          = [frame]
      \<and> frame = [0, 0, 0, 1, 0, 0, 0, 100, 0, 0, 0, 0, 0, 0, 0, 2, 104, 105]
      \<and> decode_header (take 16 frame) = Some (1, 100, 0, 2))"
proof -
  have h1: "fits_u32 100"
    by simp
  have h2: "fits_u32 (int (length (payload_bytes_of env_quiet (PBytes [104, 105]))))"
    by (simp add: payload_bytes_of_def fits_u32_def)
  show ?thesis
    using h1 h2 send_peertalk_frame_layout [OF h1 h2, of 0 world0]
    by (simp add: payload_bytes_of_def world0_def u32_be_def)
qed

section \<open>The channel reader\<close>

lemma clock_reads_append [simp]: "clock_reads (xs @ ys) = clock_reads xs @ clock_reads ys"
  by (induction xs rule: clock_reads.induct) simp_all

lemma supervisor_view_append [simp]:
  "supervisor_view (xs @ ys) = supervisor_view xs @ supervisor_view ys"
  by (induction xs rule: supervisor_view.induct) simp_all

lemma probe_reads_append [simp]: "probe_reads (xs @ ys) = probe_reads xs + probe_reads ys"
  by (induction xs rule: probe_reads.induct) simp_all

lemma init_maps [simp]:
  "cht_channel_map (SMTCReader_init a b) = [1, 2, 3, 4, 7, 8]"
  "egt_channel_map (SMTCReader_init a b) = [1, 2, 3, 4, 7, 8]"
  by (simp_all add: SMTCReader_init_def Let_def)

lemma init_sensors:
  "cht_sensor (SMTCReader_init a b) = (if a \<and> b 1 then Some (SMtc 1) else None)"
  "egt_sensor (SMTCReader_init a b) = (if a \<and> b 0 then Some (SMtc 0) else None)"
  by (simp_all add: SMTCReader_init_def Let_def)

lemma py_range_6: "py_range 6 = [0, 1, 2, 3, 4, 5]"
  by (simp add: py_range_def upt_rec)

lemma sample_step_refl: "sample_step w w"
  by (simp add: sample_step_def)

lemma sample_step_trans: "sample_step w w1 \<Longrightarrow> sample_step w1 w2 \<Longrightarrow> sample_step w w2"
  by (auto simp add: sample_step_def)

lemma read_cht_probe_step: "sample_step w (snd (read_cht_probe rd en i w))"
  by (auto simp add: sample_step_def read_cht_probe_def read_cht_probe_try_def get_temp_def
      random_uniform_def print_log_def emit_def Let_def
      split: option.split sum.split prod.split)

lemma read_egt_probe_step: "sample_step w (snd (read_egt_probe rd en i w))"
  by (auto simp add: sample_step_def read_egt_probe_def read_egt_probe_try_def get_temp_def
      random_uniform_def print_log_def emit_def Let_def
      split: option.split sum.split prod.split)

lemma read_probes_step:
  assumes "\<And>p w. sample_step w (snd (rd p w))"
  shows "sample_step w (snd (read_probes rd ps acc w))"
proof (induction ps arbitrary: acc w)
  case Nil
  show ?case
    by (simp add: sample_step_refl)
next
  case (Cons p ps)
  obtain t w1 where r: "rd p w = (t, w1)"
    by (cases "rd p w")
  have "sample_step w w1"
    using assms [of w p] r by simp
  moreover have "sample_step w1 (snd (read_probes rd ps (acc @ [t]) w1))"
    by (rule Cons.IH)
  ultimately show ?case
    using r by (simp add: sample_step_trans)
qed

lemma read_probes_length:
  "length (fst (read_probes rd ps acc w)) = length acc + length ps"
  by (induction ps arbitrary: acc w) (simp_all split: prod.split)

lemma sim_reader_sensors: "cht_sensor sim_reader = None" "egt_sensor sim_reader = None"
  by (simp_all add: sim_reader_def init_sensors)

lemma hw_reader_sensors: "cht_sensor hw_reader = Some (SMtc 1)" "egt_sensor hw_reader = Some (SMtc 0)"
  by (simp_all add: hw_reader_def init_sensors all_boards_def)

text \<open>
  C2 as stated fails. Without a board the bounds check of lines 78 and 97 is
  not reached: the index is ignored and a simulated value comes back. Here
  probe 6 of the CHT family reads 350 and probe -1 of the EGT family reads 1350,
  not the zero sentinel.
\<close>

theorem out_of_range_simulated_counterexample:
  "cht_sensor sim_reader = None
   \<and> fst (read_cht_probe sim_reader env_quiet 6 world0) = 350
   \<and> egt_sensor sim_reader = None
   \<and> fst (read_egt_probe sim_reader env_quiet (- 1) world0) = 1350"
  by (simp add: sim_reader_sensors read_cht_probe_def read_cht_probe_try_def
      read_egt_probe_def read_egt_probe_try_def random_uniform_def env_quiet_def world0_def)

text \<open>
  C2, amended. For every probe index outside the bounds of the mapping table
  (negative, or 6 and above), \<open>read_cht_probe\<close> and \<open>read_egt_probe\<close> do not
  raise in any mode: the body of the \<open>try\<close> returns a value. With the board of
  the family present the value is the zero sentinel and the board is not
  touched; with the board absent it is the simulated value, 300 plus a draw
  from 0 to 100 for CHT and 1200 plus a draw from 0 to 300 for EGT, whatever
  the index.
\<close>

theorem out_of_range_probe:
  assumes "probe_id < 0 \<or> 6 \<le> probe_id"
  shows "(cht_sensor (SMTCReader_init a b) \<noteq> None \<longrightarrow>
            read_cht_probe_try (SMTCReader_init a b) en probe_id w = (Inr 0, w)
          \<and> read_cht_probe (SMTCReader_init a b) en probe_id w = (0, w))
       \<and> (egt_sensor (SMTCReader_init a b) \<noteq> None \<longrightarrow>
            read_egt_probe_try (SMTCReader_init a b) en probe_id w = (Inr 0, w)
          \<and> read_egt_probe (SMTCReader_init a b) en probe_id w = (0, w))
       \<and> (cht_sensor (SMTCReader_init a b) = None \<longrightarrow>
            read_cht_probe_try (SMTCReader_init a b) en probe_id w =
              (Inr (300 + 100 * env_random en (n_random w)),
               snd (random_uniform en 0 100 w))
          \<and> fst (read_cht_probe (SMTCReader_init a b) en probe_id w) =
              300 + 100 * env_random en (n_random w))
       \<and> (egt_sensor (SMTCReader_init a b) = None \<longrightarrow>
            read_egt_probe_try (SMTCReader_init a b) en probe_id w =
              (Inr (1200 + 300 * env_random en (n_random w)),
               snd (random_uniform en 0 300 w))
          \<and> fst (read_egt_probe (SMTCReader_init a b) en probe_id w) =
              1200 + 300 * env_random en (n_random w))"
  using assms
  by (auto simp add: read_cht_probe_def read_cht_probe_try_def read_egt_probe_def
      read_egt_probe_try_def random_uniform_def Let_def)

theorem out_of_range_probe_witness:
  "((6::int) < 0 \<or> (6::int) \<le> 6)
   \<and> cht_sensor hw_reader \<noteq> None
   \<and> read_cht_probe hw_reader env_quiet 6 world0 = (0, world0)
   \<and> egt_sensor hw_reader \<noteq> None
   \<and> read_egt_probe hw_reader env_quiet 6 world0 = (0, world0)
   \<and> cht_sensor sim_reader = None
   \<and> fst (read_cht_probe sim_reader env_quiet 6 world0) = 350
   \<and> egt_sensor sim_reader = None
   \<and> fst (read_egt_probe sim_reader env_quiet 6 world0) = 1350"
proof -
  have h: "(6::int) < 0 \<or> (6::int) \<le> 6"
    by simp
  have hw: "cht_sensor hw_reader \<noteq> None" "egt_sensor hw_reader \<noteq> None"
    by (simp_all add: hw_reader_sensors)
  have q: "env_random env_quiet (n_random world0) = 1 / 2"
    by (simp add: env_quiet_def)
  show ?thesis
    using h hw sim_reader_sensors
      out_of_range_probe [OF h, of True all_boards env_quiet world0]
      out_of_range_probe [OF h, of False no_boards env_quiet world0]
    by (simp add: hw_reader_def [symmetric] sim_reader_def [symmetric] q)
qed

text \<open>
  C8. Without a board (simulation), every CHT reading lies between 300 and 400
  and every EGT reading between 1200 and 1500, for every probe index and every
  sample, given that the generator's \<open>random()\<close> lies between 0 (included)
  and 1 (excluded).
\<close>

theorem simulated_readings_in_range:
  assumes "\<forall>n. 0 \<le> env_random en n \<and> env_random en n < 1"
  shows "(cht_sensor (SMTCReader_init a b) = None \<longrightarrow>
            300 \<le> fst (read_cht_probe (SMTCReader_init a b) en probe_id w)
          \<and> fst (read_cht_probe (SMTCReader_init a b) en probe_id w) \<le> 400)
       \<and> (egt_sensor (SMTCReader_init a b) = None \<longrightarrow>
            1200 \<le> fst (read_egt_probe (SMTCReader_init a b) en probe_id w)
          \<and> fst (read_egt_probe (SMTCReader_init a b) en probe_id w) \<le> 1500)"
proof -
  have u: "0 \<le> env_random en (n_random w)" "env_random en (n_random w) < 1"
    using assms by simp_all
  show ?thesis
    using u
    by (auto simp add: read_cht_probe_def read_cht_probe_try_def read_egt_probe_def
      read_egt_probe_try_def random_uniform_def Let_def)
qed

theorem simulated_readings_in_range_witness:
  "(\<forall>n. 0 \<le> env_random env_quiet n \<and> env_random env_quiet n < 1)
   \<and> cht_sensor sim_reader = None
   \<and> 300 \<le> fst (read_cht_probe sim_reader env_quiet 2 world0)
   \<and> fst (read_cht_probe sim_reader env_quiet 2 world0) \<le> 400
   \<and> egt_sensor sim_reader = None
   \<and> 1200 \<le> fst (read_egt_probe sim_reader env_quiet 2 world0)
   \<and> fst (read_egt_probe sim_reader env_quiet 2 world0) \<le> 1500"
proof -
  have h: "\<forall>n. 0 \<le> env_random env_quiet n \<and> env_random env_quiet n < 1"
    by (simp add: env_quiet_def)
  show ?thesis
    using h sim_reader_sensors
      simulated_readings_in_range [OF h, of False no_boards 2 world0]
    by (simp add: sim_reader_def [symmetric])
qed

section \<open>The sampler\<close>

lemma reads_step_0: "reads_step 0 w w"
  by (simp add: reads_step_def)

lemma reads_step_add: "reads_step j w w1 \<Longrightarrow> reads_step k w1 w2 \<Longrightarrow> reads_step (j + k) w w2"
  by (auto simp add: reads_step_def)

lemma list_getitem_map:
  "0 \<le> i \<Longrightarrow> i < 6 \<Longrightarrow> \<exists>c. list_getitem [1, 2, 3, 4, 7, 8 :: int] i = Inr c"
  by (simp add: list_getitem_def)

lemma read_cht_probe_reads:
  assumes "0 \<le> i" "i < 6"
  shows "reads_step 1 w (snd (read_cht_probe (SMTCReader_init a b) en i w))"
proof -
  obtain c where c: "list_getitem [1, 2, 3, 4, 7, 8 :: int] i = Inr c"
    using list_getitem_map [OF assms] by blast
  show ?thesis
    using assms c
    by (auto simp add: reads_step_def read_cht_probe_def read_cht_probe_try_def get_temp_def
        random_uniform_def print_log_def emit_def Let_def
        split: option.split sum.split prod.split)
qed

lemma read_egt_probe_reads:
  assumes "0 \<le> i" "i < 6"
  shows "reads_step 1 w (snd (read_egt_probe (SMTCReader_init a b) en i w))"
proof -
  obtain c where c: "list_getitem [1, 2, 3, 4, 7, 8 :: int] i = Inr c"
    using list_getitem_map [OF assms] by blast
  show ?thesis
    using assms c
    by (auto simp add: reads_step_def read_egt_probe_def read_egt_probe_try_def get_temp_def
        random_uniform_def print_log_def emit_def Let_def
        split: option.split sum.split prod.split)
qed

lemma read_probes_reads:
  assumes "\<And>p w. p \<in> set ps \<Longrightarrow> reads_step 1 w (snd (rd p w))"
  shows "reads_step (length ps) w (snd (read_probes rd ps acc w))"
  using assms
proof (induction ps arbitrary: acc w)
  case Nil
  show ?case by (simp add: reads_step_0)
next
  case (Cons p ps)
  obtain t w1 where r: "rd p w = (t, w1)" by (cases "rd p w")
  have "reads_step 1 w w1" using Cons.prems [of p w] r by simp
  moreover have "reads_step (length ps) w1 (snd (read_probes rd ps (acc @ [t]) w1))"
    using Cons.prems by (intro Cons.IH) simp
  ultimately have "reads_step (1 + length ps) w (snd (read_probes rd ps (acc @ [t]) w1))"
    by (rule reads_step_add)
  then show ?case using r by simp
qed

text \<open>
  C4. For every reader (simulated or with boards), environment and world,
  \<open>read_temperature_data\<close> returns a snapshot: the six CHT readings of probes
  0 to 5 in this order, then the six EGT readings of probes 0 to 5 in this
  order, a timestamp and the unit tag \<open>F\<close>. No branch of the model fails: a
  read that raises inside the reader has become the value 0 there.
\<close>

theorem read_temperature_data_complete:
  "\<exists>c0 c1 c2 c3 c4 c5 e0 e1 e2 e3 e4 e5 t w1 w2 w3 w4 w5 w6 w7 w8 w9 w10 w11 w12 w13.
      read_cht_probe sensor_reader en 0 w = (c0, w1)
    \<and> read_cht_probe sensor_reader en 1 w1 = (c1, w2)
    \<and> read_cht_probe sensor_reader en 2 w2 = (c2, w3)
    \<and> read_cht_probe sensor_reader en 3 w3 = (c3, w4)
    \<and> read_cht_probe sensor_reader en 4 w4 = (c4, w5)
    \<and> read_cht_probe sensor_reader en 5 w5 = (c5, w6)
    \<and> read_egt_probe sensor_reader en 0 w6 = (e0, w7)
    \<and> read_egt_probe sensor_reader en 1 w7 = (e1, w8)
    \<and> read_egt_probe sensor_reader en 2 w8 = (e2, w9)
    \<and> read_egt_probe sensor_reader en 3 w9 = (e3, w10)
    \<and> read_egt_probe sensor_reader en 4 w10 = (e4, w11)
    \<and> read_egt_probe sensor_reader en 5 w11 = (e5, w12)
    \<and> time_time en w12 = (t, w13)
    \<and> read_temperature_data sensor_reader en w =
        ([(''cht'', JList (map JFloat [c0, c1, c2, c3, c4, c5])),
          (''egt'', JList (map JFloat [e0, e1, e2, e3, e4, e5])),
          (''timestamp'', JFloat t),
          (''unit'', JStr ''F'')], w13)"
  by (simp add: read_temperature_data_def py_range_6 split: prod.split)

lemma hw_reader_maps [simp]:
  "cht_channel_map hw_reader = [1, 2, 3, 4, 7, 8]"
  "egt_channel_map hw_reader = [1, 2, 3, 4, 7, 8]"
  by (simp_all add: hw_reader_def)

lemma sim_reader_maps [simp]:
  "cht_channel_map sim_reader = [1, 2, 3, 4, 7, 8]"
  "egt_channel_map sim_reader = [1, 2, 3, 4, 7, 8]"
  by (simp_all add: sim_reader_def)

lemma hw_faulty_cht:
  "read_cht_probe hw_reader env_faulty i w =
      (if 0 \<le> i \<and> i < 6
       then (0, w\<lparr>trace := trace w @
                    [EvGetTemp (SMtc 1) ([1, 2, 3, 4, 7, 8] ! nat i) (Inl DriverError),
                     EvLog (LogChtProbeError (i + 1) DriverError)],
                  n_get_temp := Suc (n_get_temp w)\<rparr>)
       else (0, w))"
  by (simp add: read_cht_probe_def read_cht_probe_try_def hw_reader_sensors
      list_getitem_def get_temp_def env_faulty_def Let_def print_log_def emit_def)

lemma hw_faulty_egt:
  "read_egt_probe hw_reader env_faulty i w =
      (if 0 \<le> i \<and> i < 6
       then (0, w\<lparr>trace := trace w @
                    [EvGetTemp (SMtc 0) ([1, 2, 3, 4, 7, 8] ! nat i) (Inl DriverError),
                     EvLog (LogEgtProbeError (i + 1) DriverError)],
                  n_get_temp := Suc (n_get_temp w)\<rparr>)
       else (0, w))"
  by (simp add: read_egt_probe_def read_egt_probe_try_def hw_reader_sensors
      list_getitem_def get_temp_def env_faulty_def Let_def print_log_def emit_def)

text \<open>With both boards present and every read failing, the snapshot is still complete.\<close>

lemma faulty_snapshot:
  "fst (read_temperature_data hw_reader env_faulty world0) =
        [(''cht'', JList (map JFloat [0, 0, 0, 0, 0, 0])),
         (''egt'', JList (map JFloat [0, 0, 0, 0, 0, 0])),
         (''timestamp'', JFloat 24),
         (''unit'', JStr ''F'')]"
  by (simp add: read_temperature_data_def py_range_6 hw_faulty_cht hw_faulty_egt
      time_time_def emit_def Let_def)
    (simp add: world0_def env_faulty_def env_quiet_def)

lemma sim_quiet_cht:
  "read_cht_probe sim_reader env_quiet i w =
     (350, w\<lparr>trace := trace w @ [EvRandom (1 / 2)], n_random := Suc (n_random w)\<rparr>)"
  by (simp add: read_cht_probe_def read_cht_probe_try_def sim_reader_sensors
      random_uniform_def env_quiet_def Let_def)

lemma sim_quiet_egt:
  "read_egt_probe sim_reader env_quiet i w =
     (1350, w\<lparr>trace := trace w @ [EvRandom (1 / 2)], n_random := Suc (n_random w)\<rparr>)"
  by (simp add: read_egt_probe_def read_egt_probe_try_def sim_reader_sensors
      random_uniform_def env_quiet_def Let_def)

lemma sim_quiet_sweep:
  "read_temperature_data sim_reader env_quiet world0 =
     ([(''cht'', JList (map JFloat [350, 350, 350, 350, 350, 350])),
       (''egt'', JList (map JFloat [1350, 1350, 1350, 1350, 1350, 1350])),
       (''timestamp'', JFloat 12),
       (''unit'', JStr ''F'')],
      world0\<lparr>trace := [EvRandom (1 / 2), EvRandom (1 / 2), EvRandom (1 / 2), EvRandom (1 / 2),
          EvRandom (1 / 2), EvRandom (1 / 2), EvRandom (1 / 2), EvRandom (1 / 2),
          EvRandom (1 / 2), EvRandom (1 / 2), EvRandom (1 / 2), EvRandom (1 / 2),
          EvTime 12], n_random := 12\<rparr>)"
  by (simp add: read_temperature_data_def py_range_6 sim_quiet_cht sim_quiet_egt
      time_time_def emit_def Let_def)
    (simp add: world0_def env_quiet_def)

theorem read_temperature_data_complete_witness:
  "(\<exists>cht egt t w'. read_temperature_data hw_reader env_faulty world0 =
        ([(''cht'', JList (map JFloat cht)), (''egt'', JList (map JFloat egt)),
          (''timestamp'', JFloat t), (''unit'', JStr ''F'')], w')
       \<and> length cht = 6 \<and> length egt = 6)
   \<and> fst (read_temperature_data hw_reader env_faulty world0) =
        [(''cht'', JList (map JFloat [0, 0, 0, 0, 0, 0])),
         (''egt'', JList (map JFloat [0, 0, 0, 0, 0, 0])),
         (''timestamp'', JFloat 24),
         (''unit'', JStr ''F'')]"
proof -
  have "\<exists>cht egt t w'. read_temperature_data hw_reader env_faulty world0 =
        ([(''cht'', JList (map JFloat cht)), (''egt'', JList (map JFloat egt)),
          (''timestamp'', JFloat t), (''unit'', JStr ''F'')], w')
       \<and> length cht = 6 \<and> length egt = 6"
    by (insert read_temperature_data_complete [of hw_reader env_faulty world0],
        elim exE conjE, simp del: list.map, intro exI conjI, rule refl, rule refl, simp_all)
  then show ?thesis
    using faulty_snapshot by simp
qed

text \<open>
  C5 as stated fails. The clock is read by the expression of line 133, when the
  dictionary is built after both loops. In the quiet environment the clock
  shows 0 when the sweep starts; the twelve readings come first in the trace,
  the clock is read as the thirteenth event, and the timestamp is 12.
\<close>

theorem timestamp_at_start_counterexample:
  "env_time env_quiet (length (trace world0)) = 0
   \<and> map_of (fst (read_temperature_data sim_reader env_quiet world0)) ''timestamp''
       = Some (JFloat 12)
   \<and> trace (snd (read_temperature_data sim_reader env_quiet world0)) =
       [EvRandom (1 / 2), EvRandom (1 / 2), EvRandom (1 / 2), EvRandom (1 / 2),
        EvRandom (1 / 2), EvRandom (1 / 2), EvRandom (1 / 2), EvRandom (1 / 2),
        EvRandom (1 / 2), EvRandom (1 / 2), EvRandom (1 / 2), EvRandom (1 / 2),
        EvTime 12]"
  by (simp add: sim_quiet_sweep) (simp add: world0_def env_quiet_def)

text \<open>
  C5, amended. For every sampling sweep the clock is read exactly once, at the
  end of the sweep: the events of the sweep are the twelve probe readings (with
  the lines printed for failed reads), none of them a clock read, followed by
  the one clock read, whose value is the timestamp of the snapshot.
\<close>

theorem timestamp_after_readings:
  "\<exists>es t. trace (snd (read_temperature_data (SMTCReader_init a b) en w)) =
             trace w @ es @ [EvTime t]
        \<and> clock_reads es = []
        \<and> probe_reads es = 12
        \<and> t = env_time en (length (trace w) + length es)
        \<and> map_of (fst (read_temperature_data (SMTCReader_init a b) en w)) ''timestamp''
            = Some (JFloat t)"
proof -
  let ?rd = "SMTCReader_init a b"
  obtain cht w1 where c: "read_probes (read_cht_probe ?rd en) (py_range 6) [] w = (cht, w1)"
    by (cases "read_probes (read_cht_probe ?rd en) (py_range 6) [] w")
  obtain egt w2 where e: "read_probes (read_egt_probe ?rd en) (py_range 6) [] w1 = (egt, w2)"
    by (cases "read_probes (read_egt_probe ?rd en) (py_range 6) [] w1")
  have len: "length (py_range 6) = 6"
    by (simp add: py_range_def)
  have "reads_step (length (py_range 6)) w
          (snd (read_probes (read_cht_probe ?rd en) (py_range 6) [] w))"
  proof (rule read_probes_reads)
    fix p :: int and w' :: world
    assume "p \<in> set (py_range 6)"
    then have "0 \<le> p" "p < 6"
      by (auto simp add: py_range_6)
    then show "reads_step 1 w' (snd (read_cht_probe ?rd en p w'))"
      by (rule read_cht_probe_reads)
  qed
  then have s1: "reads_step 6 w w1"
    using c unfolding len by simp
  have "reads_step (length (py_range 6)) w1
          (snd (read_probes (read_egt_probe ?rd en) (py_range 6) [] w1))"
  proof (rule read_probes_reads)
    fix p :: int and w' :: world
    assume "p \<in> set (py_range 6)"
    then have "0 \<le> p" "p < 6"
      by (auto simp add: py_range_6)
    then show "reads_step 1 w' (snd (read_egt_probe ?rd en p w'))"
      by (rule read_egt_probe_reads)
  qed
  then have s2: "reads_step 6 w1 w2"
    using e unfolding len by simp
  have "reads_step (6 + 6) w w2"
    using s1 s2 by (rule reads_step_add)
  then obtain es where es: "trace w2 = trace w @ es" "clock_reads es = []" "probe_reads es = 12"
    by (auto simp add: reads_step_def)
  show ?thesis
    using c e es
    by (simp add: read_temperature_data_def time_time_def emit_def Let_def)
qed

theorem timestamp_after_readings_witness:
  "(\<exists>es t. trace (snd (read_temperature_data sim_reader env_quiet world0)) =
             trace world0 @ es @ [EvTime t]
        \<and> clock_reads es = []
        \<and> probe_reads es = 12
        \<and> t = env_time env_quiet (length (trace world0) + length es)
        \<and> map_of (fst (read_temperature_data sim_reader env_quiet world0)) ''timestamp''
            = Some (JFloat t))
   \<and> map_of (fst (read_temperature_data sim_reader env_quiet world0)) ''timestamp''
            = Some (JFloat 12)"
  using timestamp_after_readings [of False no_boards env_quiet world0]
  by (simp add: sim_reader_def [symmetric] sim_quiet_sweep)

section \<open>The supervisor: connect faults\<close>

lemma main_try_connect_fails:
  assumes "env_connect en (n_connect w) = Some (Exception x)"
  shows "main_try fuel rd en w =
     (case env_sleep en (n_sleep w) of
        None \<Rightarrow> Some (Inr ())
      | Some e \<Rightarrow> Some (Inl e),
      w\<lparr>trace := trace w @
           [EvConnect (n_connect w) (Some (Exception x)),
            EvLog (if x = SocketTimeout then LogConnectTimeout
                  else if x = ConnectionRefusedError then LogConnectRefused
                  else LogConnectError x),
            EvLog LogRetrying,
            EvSleep 5 (env_sleep en (n_sleep w))],
         n_connect := Suc (n_connect w), n_sleep := Suc (n_sleep w)\<rparr>)"
  using assms
  by (simp add: main_try_def connect_to_ipad_def time_sleep_def print_log_def emit_def Let_def
      split: option.split)

lemma retries_no_signal:
  assumes c: "\<forall>n. \<exists>x. env_connect en n = Some (Exception x)"
    and s: "\<forall>n. env_sleep en n = None"
  shows "main_loop fuel rd en w =
      (OutOfFuel,
       w\<lparr>trace := trace w @ concat (map (retry_round en) [n_connect w..<n_connect w + fuel]),
         n_connect := n_connect w + fuel, n_sleep := n_sleep w + fuel\<rparr>)"
proof (induction fuel arbitrary: w)
  case 0
  show ?case by simp
next
  case (Suc fuel)
  obtain x where x: "env_connect en (n_connect w) = Some (Exception x)"
    using c by blast
  have sl: "env_sleep en (n_sleep w) = None"
    using s by simp
  have r: "retry_round en (n_connect w) =
      [EvConnect (n_connect w) (Some (Exception x)),
            EvLog (if x = SocketTimeout then LogConnectTimeout
                  else if x = ConnectionRefusedError then LogConnectRefused
                  else LogConnectError x),
            EvLog LogRetrying,
            EvSleep 5 None]"
    by (simp add: retry_round_def x)
  have u: "[n_connect w..<n_connect w + Suc fuel] =
      n_connect w # [Suc (n_connect w)..<Suc (n_connect w) + fuel]"
    by (simp add: upt_conv_Cons)
  show ?case
    by (simp only: main_loop.simps main_try_connect_fails [OF x] sl u)
       (simp add: Suc.IH r)
qed

lemma retries_signal:
  assumes c: "\<forall>n. \<exists>x. env_connect en n = Some (Exception x)"
    and s: "\<forall>n. env_sleep en n = None \<or> env_sleep en n = Some KeyboardInterrupt"
  shows "fst (main_loop fuel rd en w) = OutOfFuel
       \<or> fst (main_loop fuel rd en w) = Exited 0
         \<and> EvSleep 5 (Some KeyboardInterrupt) \<in> set (trace (snd (main_loop fuel rd en w)))"
proof (induction fuel arbitrary: w)
  case 0
  show ?case by simp
next
  case (Suc fuel)
  obtain x where x: "env_connect en (n_connect w) = Some (Exception x)"
    using c by blast
  have "env_sleep en (n_sleep w) = None \<or> env_sleep en (n_sleep w) = Some KeyboardInterrupt"
    using s by simp
  then show ?case
  proof
    assume sl: "env_sleep en (n_sleep w) = None"
    show ?thesis
      by (simp only: main_loop.simps main_try_connect_fails [OF x] sl) (simp add: Suc.IH)
  next
    assume sl: "env_sleep en (n_sleep w) = Some KeyboardInterrupt"
    show ?thesis
      by (simp only: main_loop.simps main_try_connect_fails [OF x] sl)
         (simp add: print_log_def emit_def)
  qed
qed

text \<open>
  C7. If every connect attempt fails with an error (timeout, refusal or any
  other exception) and no interrupt arrives, then for every amount of fuel the
  supervisor is still running: it has made one attempt per round, each followed
  by the retry line and a sleep of 5 seconds, and nothing else. If interrupts
  may arrive during the sleeps, the only way out is the exit with code 0 after
  an interrupted sleep; no exception ever leaves \<open>main\<close>.
\<close>

theorem connect_fault_retries_forever:
  assumes "\<forall>n. \<exists>x. env_connect en n = Some (Exception x)"
    and "\<forall>n. env_sleep en n = None \<or> env_sleep en n = Some KeyboardInterrupt"
  shows "((\<forall>n. env_sleep en n = None) \<longrightarrow>
            main_loop fuel rd en w =
              (OutOfFuel,
               w\<lparr>trace := trace w @
                    concat (map (retry_round en) [n_connect w..<n_connect w + fuel]),
                 n_connect := n_connect w + fuel, n_sleep := n_sleep w + fuel\<rparr>))
       \<and> (fst (main_loop fuel rd en w) = OutOfFuel
          \<or> fst (main_loop fuel rd en w) = Exited 0
            \<and> EvSleep 5 (Some KeyboardInterrupt) \<in> set (trace (snd (main_loop fuel rd en w))))
       \<and> (\<forall>e. fst (main_loop fuel rd en w) \<noteq> Uncaught e)"
proof -
  have a: "(\<forall>n. env_sleep en n = None) \<longrightarrow>
            main_loop fuel rd en w =
              (OutOfFuel,
               w\<lparr>trace := trace w @
                    concat (map (retry_round en) [n_connect w..<n_connect w + fuel]),
                 n_connect := n_connect w + fuel, n_sleep := n_sleep w + fuel\<rparr>)"
    using retries_no_signal [OF assms(1)] by blast
  have b: "fst (main_loop fuel rd en w) = OutOfFuel
          \<or> fst (main_loop fuel rd en w) = Exited 0
            \<and> EvSleep 5 (Some KeyboardInterrupt) \<in> set (trace (snd (main_loop fuel rd en w)))"
    by (rule retries_signal [OF assms])
  from b have c: "\<forall>e. fst (main_loop fuel rd en w) \<noteq> Uncaught e"
    by auto
  from a b c show ?thesis
    by blast
qed

theorem connect_fault_retries_forever_witness:
  "(\<forall>n. \<exists>x. env_connect env_refusing n = Some (Exception x))
   \<and> (\<forall>n. env_sleep env_refusing n = None)
   \<and> main_loop 3 sim_reader env_refusing world0 =
       (OutOfFuel,
        world0\<lparr>trace :=
           [EvConnect 0 (Some (Exception ConnectionRefusedError)), EvLog LogConnectRefused,
            EvLog LogRetrying, EvSleep 5 None,
            EvConnect 1 (Some (Exception ConnectionRefusedError)), EvLog LogConnectRefused,
            EvLog LogRetrying, EvSleep 5 None,
            EvConnect 2 (Some (Exception ConnectionRefusedError)), EvLog LogConnectRefused,
            EvLog LogRetrying, EvSleep 5 None],
          n_connect := 3, n_sleep := 3\<rparr>)"
proof -
  have h1: "\<forall>n. \<exists>x. env_connect env_refusing n = Some (Exception x)"
    by (simp add: env_refusing_def)
  have h2: "\<forall>n. env_sleep env_refusing n = None"
    by (simp add: env_refusing_def env_quiet_def)
  have h3: "\<forall>n. env_sleep env_refusing n = None \<or> env_sleep env_refusing n = Some KeyboardInterrupt"
    using h2 by simp
  have u: "[0..<3] = [0, 1, 2]"
    by (simp add: upt_rec)
  have r: "\<And>k. retry_round env_refusing k =
      [EvConnect k (Some (Exception ConnectionRefusedError)), EvLog LogConnectRefused,
       EvLog LogRetrying, EvSleep 5 None]"
    by (simp add: retry_round_def env_refusing_def)
  show ?thesis
    using h1 h2 connect_fault_retries_forever [OF h1 h3, of 3 sim_reader world0]
    by (simp add: world0_def u r)
qed


section \<open>The supervisor: streaming\<close>

lemma snapshot_shape:
  "\<exists>cht egt t. fst (read_temperature_data rd en w) =
       [(''cht'', JList (map JFloat cht)), (''egt'', JList (map JFloat egt)),
        (''timestamp'', JFloat t), (''unit'', JStr ''F'')]
     \<and> length cht = 6 \<and> length egt = 6"
proof -
  obtain cht w1 where c: "read_probes (read_cht_probe rd en) (py_range 6) [] w = (cht, w1)"
    by (cases "read_probes (read_cht_probe rd en) (py_range 6) [] w")
  obtain egt w2 where e: "read_probes (read_egt_probe rd en) (py_range 6) [] w1 = (egt, w2)"
    by (cases "read_probes (read_egt_probe rd en) (py_range 6) [] w1")
  have "length cht = 6"
    using read_probes_length [of "read_cht_probe rd en" "py_range 6" "[]" w] c
    by (simp add: py_range_def)
  moreover have "length egt = 6"
    using read_probes_length [of "read_egt_probe rd en" "py_range 6" "[]" w1] e
    by (simp add: py_range_def)
  moreover have "fst (read_temperature_data rd en w) =
       [(''cht'', JList (map JFloat cht)), (''egt'', JList (map JFloat egt)),
        (''timestamp'', JFloat (env_time en (length (trace w2)))), (''unit'', JStr ''F'')]"
    using c e by (simp add: read_temperature_data_def time_time_def Let_def)
  ultimately show ?thesis
    by blast
qed

lemma length_intercalate_le:
  "length (intercalate sep xs) \<le> sum_list (map length xs) + length sep * length xs"
  by (induction sep xs rule: intercalate.induct) simp_all

lemma length_float_list:
  assumes "\<forall>x. length (repr x) \<le> 32"
  shows "length (json_dumps_value repr (JList (map JFloat xs))) \<le> 2 + 34 * length xs"
proof -
  have "sum_list (map length (map (json_dumps_value repr) (map JFloat xs))) \<le> 32 * length xs"
    using assms by (induction xs) (simp_all add: add_le_mono)
  moreover have "length (intercalate '', '' (map (json_dumps_value repr) (map JFloat xs)))
      \<le> sum_list (map length (map (json_dumps_value repr) (map JFloat xs)))
        + length '', '' * length (map (json_dumps_value repr) (map JFloat xs))"
    by (rule length_intercalate_le)
  ultimately show ?thesis
    by simp
qed

lemma snapshot_payload_fits:
  assumes "float_repr_bounded en"
  shows "fits_u32 (int (length (payload_bytes_of en (PDict (fst (read_temperature_data rd en w))))))"
proof -
  have b: "\<forall>x. length (env_float_repr en x) \<le> 32"
    using assms by (simp add: float_repr_bounded_def)
  obtain cht egt t where s: "fst (read_temperature_data rd en w) =
       [(''cht'', JList (map JFloat cht)), (''egt'', JList (map JFloat egt)),
        (''timestamp'', JFloat t), (''unit'', JStr ''F'')]"
     and l: "length cht = 6" "length egt = 6"
    using snapshot_shape by blast
  have c: "length (json_dumps_value (env_float_repr en) (JList (map JFloat cht))) \<le> 206"
    using length_float_list [OF b, of cht] l by simp
  have e: "length (json_dumps_value (env_float_repr en) (JList (map JFloat egt))) \<le> 206"
    using length_float_list [OF b, of egt] l by simp
  have t: "length (json_dumps_value (env_float_repr en) (JFloat t)) \<le> 32"
    using b by simp
  have f: "length (json_dumps_value (env_float_repr en) (JStr ''F'')) = 3"
    by (simp add: quoted_def)
  have "length (payload_bytes_of en (PDict (fst (read_temperature_data rd en w)))) \<le> 1000"
    using c e t f
    by (simp add: s payload_bytes_of_def encode_utf8_def json_dumps_def quoted_def
        del: json_dumps_value.simps)
  then show ?thesis
    by (simp add: fits_u32_def)
qed

lemma sup_adv_refl: "sup_adv w [] 0 0 0 0 w"
  by (simp add: sup_adv_def)

lemma sup_adv_trans:
  "sup_adv w e1 a1 b1 c1 d1 w1 \<Longrightarrow> sup_adv w1 e2 a2 b2 c2 d2 w2
     \<Longrightarrow> sup_adv w (e1 @ e2) (a1 + a2) (b1 + b2) (c1 + c2) (d1 + d2) w2"
  by (simp add: sup_adv_def)

lemma sample_step_sup: "sample_step w w' \<Longrightarrow> sup_adv w [] 0 0 0 0 w'"
  by (auto simp add: sample_step_def sup_adv_def)

lemma sample_step_frames:
  "sample_step w w' \<Longrightarrow> frames_written (trace w') = frames_written (trace w)"
  by (auto simp add: sample_step_def)

lemma sweep_sup: "sup_adv w [] 0 0 0 0 (snd (read_temperature_data rd en w))"
proof -
  obtain cht w1 where c: "read_probes (read_cht_probe rd en) (py_range 6) [] w = (cht, w1)"
    by (cases "read_probes (read_cht_probe rd en) (py_range 6) [] w")
  obtain egt w2 where e: "read_probes (read_egt_probe rd en) (py_range 6) [] w1 = (egt, w2)"
    by (cases "read_probes (read_egt_probe rd en) (py_range 6) [] w1")
  have "sample_step w (snd (read_probes (read_cht_probe rd en) (py_range 6) [] w))"
    by (rule read_probes_step) (rule read_cht_probe_step)
  then have s1: "sup_adv w [] 0 0 0 0 w1"
    using c by (simp add: sample_step_sup)
  have "sample_step w1 (snd (read_probes (read_egt_probe rd en) (py_range 6) [] w1))"
    by (rule read_probes_step) (rule read_egt_probe_step)
  then have s2: "sup_adv w1 [] 0 0 0 0 w2"
    using e by (simp add: sample_step_sup)
  have "sup_adv w [] 0 0 0 0 w2"
    using sup_adv_trans [OF s1 s2] by simp
  then show ?thesis
    using c e by (simp add: read_temperature_data_def time_time_def emit_def Let_def sup_adv_def)
qed

lemma sweep_frames:
  "frames_written (trace (snd (read_temperature_data rd en w))) = frames_written (trace w)"
proof -
  obtain cht w1 where c: "read_probes (read_cht_probe rd en) (py_range 6) [] w = (cht, w1)"
    by (cases "read_probes (read_cht_probe rd en) (py_range 6) [] w")
  obtain egt w2 where e: "read_probes (read_egt_probe rd en) (py_range 6) [] w1 = (egt, w2)"
    by (cases "read_probes (read_egt_probe rd en) (py_range 6) [] w1")
  have "sample_step w (snd (read_probes (read_cht_probe rd en) (py_range 6) [] w))"
    by (rule read_probes_step) (rule read_cht_probe_step)
  then have s1: "frames_written (trace w1) = frames_written (trace w)"
    using c by (simp add: sample_step_frames)
  have "sample_step w1 (snd (read_probes (read_egt_probe rd en) (py_range 6) [] w1))"
    by (rule read_probes_step) (rule read_egt_probe_step)
  then have s2: "frames_written (trace w2) = frames_written (trace w1)"
    using e by (simp add: sample_step_frames)
  show ?thesis
    using c e s1 s2 by (simp add: read_temperature_data_def time_time_def emit_def Let_def)
qed

lemma snapshot_not_empty: "fst (read_temperature_data rd en w) \<noteq> []"
  using snapshot_shape [of rd en w] by auto

text \<open>One pass through the body of the streaming loop, by what the write and the sleep do.\<close>

lemma stream_try_sent:
  assumes "float_repr_bounded en" and "env_sendall en (n_sendall w) = None"
  shows "\<exists>w'. stream_try rd en sock fn w =
            (case env_sleep en (n_sleep w) of None \<Rightarrow> Inr False | Some e \<Rightarrow> Inl e, fn + 1, w')
          \<and> sup_adv w [EvSendAll sock [] None,
                        EvLog (LogFrameSent (fn + 1) (hardware_available rd)),
                        EvSleep 1 (env_sleep en (n_sleep w))] 0 1 0 1 w'"
proof -
  obtain snap w1 where r: "read_temperature_data rd en w = (snap, w1)"
    by (cases "read_temperature_data rd en w")
  have ne: "snap \<noteq> []"
    using snapshot_not_empty [of rd en w] r by simp
  have fit: "fits_u32 (int (length (payload_bytes_of en (PDict snap))))"
    using snapshot_payload_fits [OF assms(1), of rd w] r by simp
  have s: "sup_adv w [] 0 0 0 0 w1"
    using sweep_sup [of w rd en] r by simp
  then have n: "n_sendall w1 = n_sendall w" "n_sleep w1 = n_sleep w"
    by (simp_all add: sup_adv_def)
  show ?thesis
    using s
    by (simp add: stream_try_def r ne send_peertalk_frame_def struct_pack_IIII_def fit
        FRAME_TYPE_TEMPERATURE_def PTPROTOCOL_VERSION_def sock_sendall_def n assms(2)
        stream_sleep_def time_sleep_def print_log_def emit_def sup_adv_def Let_def
        split: option.split)
qed

lemma stream_try_write_fails:
  assumes "float_repr_bounded en" and "env_sendall en (n_sendall w) = Some (Exception x)"
  shows "\<exists>w'. stream_try rd en sock fn w = (Inr True, fn + 1, w')
          \<and> sup_adv w [EvSendAll sock [] (Some (Exception x)),
                        EvLog (LogSendError x),
                        EvLog (LogFailedAfter (fn + 1))] 0 1 0 0 w'"
proof -
  obtain snap w1 where r: "read_temperature_data rd en w = (snap, w1)"
    by (cases "read_temperature_data rd en w")
  have ne: "snap \<noteq> []"
    using snapshot_not_empty [of rd en w] r by simp
  have fit: "fits_u32 (int (length (payload_bytes_of en (PDict snap))))"
    using snapshot_payload_fits [OF assms(1), of rd w] r by simp
  have s: "sup_adv w [] 0 0 0 0 w1"
    using sweep_sup [of w rd en] r by simp
  then have n: "n_sendall w1 = n_sendall w" "n_sleep w1 = n_sleep w"
    by (simp_all add: sup_adv_def)
  show ?thesis
    using s
    by (simp add: stream_try_def r ne send_peertalk_frame_def struct_pack_IIII_def fit
        FRAME_TYPE_TEMPERATURE_def PTPROTOCOL_VERSION_def sock_sendall_def n assms(2)
        print_log_def emit_def sup_adv_def Let_def)
qed

lemma main_try_connected:
  assumes "env_connect en (n_connect w) = None"
  shows "\<exists>wb. sup_adv w [EvConnect (n_connect w) None, EvLog LogConnected,
                          EvLog LogStartStreaming] 1 0 0 0 wb
     \<and> main_try fuel rd en w =
        (case stream_loop fuel rd en (n_connect w) 0 wb of
           (left, frame_num, w2) \<Rightarrow>
             if left then
               (case sock_close en (n_connect w) w2 of
                  (None, w3) \<Rightarrow> (Some (Inr ()), print_log (LogDisconnected frame_num) w3)
                | (Some e, w3) \<Rightarrow> (Some (Inl e), w3))
             else (None, w2))"
proof -
  let ?wb = "print_log LogStartStreaming (print_log LogConnected
      (w\<lparr>trace := trace w @ [EvConnect (n_connect w) None], n_connect := Suc (n_connect w)\<rparr>))"
  show ?thesis
    using assms
    by (intro exI [of _ ?wb])
       (simp add: main_try_def connect_to_ipad_def print_log_def emit_def Let_def sup_adv_def)
qed

lemma stream_loop_continue:
  "stream_try rd en sock fn w = (Inr False, fn', w')
     \<Longrightarrow> stream_loop (Suc fuel) rd en sock fn w = stream_loop fuel rd en sock fn' w'"
  by simp

lemma stream_loop_break:
  "stream_try rd en sock fn w = (Inr True, fn', w')
     \<Longrightarrow> stream_loop (Suc fuel) rd en sock fn w = (True, fn', w')"
  by simp

lemma main_loop_continue:
  "main_try fuel rd en w = (Some (Inr ()), w')
     \<Longrightarrow> main_loop (Suc fuel) rd en w = main_loop fuel rd en w'"
  by simp

lemma third_write_fails_stream:
  assumes b: "float_repr_bounded en"
    and w1: "env_sendall en (n_sendall w) = None"
    and w2: "env_sendall en (n_sendall w + 1) = None"
    and w3: "env_sendall en (n_sendall w + 2) = Some (Exception x)"
    and s1: "env_sleep en (n_sleep w) = None"
    and s2: "env_sleep en (n_sleep w + 1) = None"
  shows "\<exists>w'. stream_loop (Suc (Suc (Suc fuel))) rd en sock 0 w = (True, 3, w')
      \<and> sup_adv w
          [EvSendAll sock [] None, EvLog (LogFrameSent 1 (hardware_available rd)), EvSleep 1 None,
           EvSendAll sock [] None, EvLog (LogFrameSent 2 (hardware_available rd)), EvSleep 1 None,
           EvSendAll sock [] (Some (Exception x)), EvLog (LogSendError x),
           EvLog (LogFailedAfter 3)] 0 3 0 2 w'"
proof -
  from stream_try_sent [OF b w1, of rd sock 0]
  obtain wa where "stream_try rd en sock 0 w =
      (case env_sleep en (n_sleep w) of None \<Rightarrow> Inr False | Some e \<Rightarrow> Inl e, 0 + 1, wa)"
    and "sup_adv w [EvSendAll sock [] None,
               EvLog (LogFrameSent (0 + 1) (hardware_available rd)),
               EvSleep 1 (env_sleep en (n_sleep w))] 0 1 0 1 wa"
    by blast
  then have a: "stream_try rd en sock 0 w = (Inr False, 1, wa)"
    and sa: "sup_adv w [EvSendAll sock [] None,
               EvLog (LogFrameSent 1 (hardware_available rd)), EvSleep 1 None] 0 1 0 1 wa"
    using s1 by simp_all
  have na: "n_sendall wa = n_sendall w + 1" "n_sleep wa = n_sleep w + 1"
    using sa by (simp_all add: sup_adv_def)
  have w2': "env_sendall en (n_sendall wa) = None"
    using w2 na by simp
  have s2': "env_sleep en (n_sleep wa) = None"
    using s2 na by simp
  from stream_try_sent [OF b w2', of rd sock 1]
  obtain wb where "stream_try rd en sock 1 wa =
      (case env_sleep en (n_sleep wa) of None \<Rightarrow> Inr False | Some e \<Rightarrow> Inl e, 1 + 1, wb)"
    and "sup_adv wa [EvSendAll sock [] None,
               EvLog (LogFrameSent (1 + 1) (hardware_available rd)),
               EvSleep 1 (env_sleep en (n_sleep wa))] 0 1 0 1 wb"
    by blast
  then have bb: "stream_try rd en sock 1 wa = (Inr False, 2, wb)"
    and sb: "sup_adv wa [EvSendAll sock [] None,
               EvLog (LogFrameSent 2 (hardware_available rd)), EvSleep 1 None] 0 1 0 1 wb"
    using s2' by (simp_all add: numeral_2_eq_2)
  have nb: "n_sendall wb = n_sendall w + 2"
    using sb na by (simp add: sup_adv_def)
  have w3': "env_sendall en (n_sendall wb) = Some (Exception x)"
    using w3 nb by simp
  from stream_try_write_fails [OF b w3', of rd sock 2]
  obtain wc where "stream_try rd en sock 2 wb = (Inr True, 2 + 1, wc)"
    and "sup_adv wb [EvSendAll sock [] (Some (Exception x)), EvLog (LogSendError x),
               EvLog (LogFailedAfter (2 + 1))] 0 1 0 0 wc"
    by blast
  then have c: "stream_try rd en sock 2 wb = (Inr True, 3, wc)"
    and sc: "sup_adv wb [EvSendAll sock [] (Some (Exception x)), EvLog (LogSendError x),
               EvLog (LogFailedAfter 3)] 0 1 0 0 wc"
    by (simp_all add: numeral_3_eq_3)
  have "stream_loop (Suc (Suc (Suc fuel))) rd en sock 0 w =
          stream_loop (Suc (Suc fuel)) rd en sock 1 wa"
    by (rule stream_loop_continue [OF a])
  also have "\<dots> = stream_loop (Suc fuel) rd en sock 2 wb"
    by (rule stream_loop_continue [OF bb])
  also have "\<dots> = (True, 3, wc)"
    by (rule stream_loop_break [OF c])
  finally have l: "stream_loop (Suc (Suc (Suc fuel))) rd en sock 0 w = (True, 3, wc)" .
  have "sup_adv w
          ([EvSendAll sock [] None, EvLog (LogFrameSent 1 (hardware_available rd)), EvSleep 1 None]
           @ [EvSendAll sock [] None, EvLog (LogFrameSent 2 (hardware_available rd)), EvSleep 1 None]
           @ [EvSendAll sock [] (Some (Exception x)), EvLog (LogSendError x),
              EvLog (LogFailedAfter 3)]) (0 + (0 + 0)) (1 + (1 + 1)) (0 + (0 + 0)) (1 + (1 + 0)) wc"
    by (rule sup_adv_trans [OF sa sup_adv_trans [OF sb sc]])
  then have v: "sup_adv w
          [EvSendAll sock [] None, EvLog (LogFrameSent 1 (hardware_available rd)), EvSleep 1 None,
           EvSendAll sock [] None, EvLog (LogFrameSent 2 (hardware_available rd)), EvSleep 1 None,
           EvSendAll sock [] (Some (Exception x)), EvLog (LogSendError x),
           EvLog (LogFailedAfter 3)] 0 3 0 2 wc"
    by (simp add: numeral_2_eq_2 numeral_3_eq_3)
  show ?thesis
    using l v by blast
qed

text \<open>
  C6. On a connection just established, with the first and second write
  succeeding and the third failing (and no interrupt meanwhile): the supervisor
  writes three times, prints the confirmation for frames 1 and 2 only, leaves
  the streaming loop at the failed write, closes the socket, and is back at the
  head of its outer loop, whose next statement is the call of
  \<open>connect_to_ipad\<close>. Between the two worlds there is one connect, three
  writes, one close and two sleeps. Floats are taken to print in at most 32
  characters, so that the payload fits its length field and the write is
  reached.
\<close>

theorem third_write_fails:
  assumes "float_repr_bounded en"
    and "env_connect en (n_connect w) = None"
    and "env_sendall en (n_sendall w) = None"
    and "env_sendall en (n_sendall w + 1) = None"
    and "env_sendall en (n_sendall w + 2) = Some (Exception x)"
    and "env_sleep en (n_sleep w) = None"
    and "env_sleep en (n_sleep w + 1) = None"
    and "env_close en (n_close w) = None"
  shows "\<exists>w'. main_loop (Suc (Suc (Suc (Suc fuel)))) rd en w =
               main_loop (Suc (Suc (Suc fuel))) rd en w'
      \<and> sup_adv w
          [EvConnect (n_connect w) None, EvLog LogConnected, EvLog LogStartStreaming,
           EvSendAll (n_connect w) [] None,
           EvLog (LogFrameSent 1 (hardware_available rd)), EvSleep 1 None,
           EvSendAll (n_connect w) [] None,
           EvLog (LogFrameSent 2 (hardware_available rd)), EvSleep 1 None,
           EvSendAll (n_connect w) [] (Some (Exception x)), EvLog (LogSendError x),
           EvLog (LogFailedAfter 3),
           EvClose (n_connect w) None, EvLog (LogDisconnected 3)] 1 3 1 2 w'"
proof -
  obtain wb where sb: "sup_adv w [EvConnect (n_connect w) None, EvLog LogConnected,
                          EvLog LogStartStreaming] 1 0 0 0 wb"
    and mt: "main_try (Suc (Suc (Suc fuel))) rd en w =
        (case stream_loop (Suc (Suc (Suc fuel))) rd en (n_connect w) 0 wb of
           (left, frame_num, w2) \<Rightarrow>
             if left then
               (case sock_close en (n_connect w) w2 of
                  (None, w3) \<Rightarrow> (Some (Inr ()), print_log (LogDisconnected frame_num) w3)
                | (Some e, w3) \<Rightarrow> (Some (Inl e), w3))
             else (None, w2))"
    using main_try_connected [OF assms(2), of "Suc (Suc (Suc fuel))" rd] by blast
  have nb: "n_sendall wb = n_sendall w" "n_sleep wb = n_sleep w" "n_close wb = n_close w"
    using sb by (simp_all add: sup_adv_def)
  obtain wc where sl: "stream_loop (Suc (Suc (Suc fuel))) rd en (n_connect w) 0 wb = (True, 3, wc)"
    and sc: "sup_adv wb
          [EvSendAll (n_connect w) [] None, EvLog (LogFrameSent 1 (hardware_available rd)),
           EvSleep 1 None,
           EvSendAll (n_connect w) [] None, EvLog (LogFrameSent 2 (hardware_available rd)),
           EvSleep 1 None,
           EvSendAll (n_connect w) [] (Some (Exception x)), EvLog (LogSendError x),
           EvLog (LogFailedAfter 3)] 0 3 0 2 wc"
    using third_write_fails_stream [of en wb x fuel rd "n_connect w"] assms nb by auto
  have nc: "n_close wc = n_close w"
    using sc nb by (simp add: sup_adv_def)
  define wd where "wd = print_log (LogDisconnected 3)
      (wc\<lparr>trace := trace wc @ [EvClose (n_connect w) None], n_close := Suc (n_close wc)\<rparr>)"
  have sd: "sup_adv wc [EvClose (n_connect w) None, EvLog (LogDisconnected 3)] 0 0 1 0 wd"
    by (simp add: wd_def sup_adv_def print_log_def emit_def)
  have "main_try (Suc (Suc (Suc fuel))) rd en w = (Some (Inr ()), wd)"
    using assms(8) nc by (simp add: mt sl sock_close_def wd_def Let_def del: stream_loop.simps)
  then have m: "main_loop (Suc (Suc (Suc (Suc fuel)))) rd en w =
               main_loop (Suc (Suc (Suc fuel))) rd en wd"
    by (rule main_loop_continue)
  have "sup_adv w
          ([EvConnect (n_connect w) None, EvLog LogConnected, EvLog LogStartStreaming]
           @ [EvSendAll (n_connect w) [] None, EvLog (LogFrameSent 1 (hardware_available rd)),
           EvSleep 1 None,
           EvSendAll (n_connect w) [] None, EvLog (LogFrameSent 2 (hardware_available rd)),
           EvSleep 1 None,
           EvSendAll (n_connect w) [] (Some (Exception x)), EvLog (LogSendError x),
           EvLog (LogFailedAfter 3)]
           @ [EvClose (n_connect w) None, EvLog (LogDisconnected 3)])
           (1 + (0 + 0)) (0 + (3 + 0)) (0 + (0 + 1)) (0 + (2 + 0)) wd"
    by (rule sup_adv_trans [OF sb sup_adv_trans [OF sc sd]])
  then have v: "sup_adv w
          [EvConnect (n_connect w) None, EvLog LogConnected, EvLog LogStartStreaming,
           EvSendAll (n_connect w) [] None,
           EvLog (LogFrameSent 1 (hardware_available rd)), EvSleep 1 None,
           EvSendAll (n_connect w) [] None,
           EvLog (LogFrameSent 2 (hardware_available rd)), EvSleep 1 None,
           EvSendAll (n_connect w) [] (Some (Exception x)), EvLog (LogSendError x),
           EvLog (LogFailedAfter 3),
           EvClose (n_connect w) None, EvLog (LogDisconnected 3)] 1 3 1 2 wd"
    by (simp add: numeral_2_eq_2 numeral_3_eq_3)
  show ?thesis
    using m v by blast
qed

section \<open>The supervisor: interrupts\<close>

text \<open>An interrupt in the sleep between two frames.\<close>

lemma interrupted_sleep_reconnects:
  assumes b: "float_repr_bounded en"
    and c: "env_connect en (n_connect w) = None"
    and w1: "env_sendall en (n_sendall w) = None"
    and s1: "env_sleep en (n_sleep w) = Some KeyboardInterrupt"
    and cl: "env_close en (n_close w) = None"
  shows "\<exists>w'. main_loop (Suc (Suc fuel)) rd en w = main_loop (Suc fuel) rd en w'
      \<and> sup_adv w
          [EvConnect (n_connect w) None, EvLog LogConnected, EvLog LogStartStreaming,
           EvSendAll (n_connect w) [] None,
           EvLog (LogFrameSent 1 (hardware_available rd)),
           EvSleep 1 (Some KeyboardInterrupt), EvLog LogStopping,
           EvClose (n_connect w) None, EvLog (LogDisconnected 1)] 1 1 1 1 w'"
proof -
  obtain wb where sb: "sup_adv w [EvConnect (n_connect w) None, EvLog LogConnected,
                          EvLog LogStartStreaming] 1 0 0 0 wb"
    and mt: "main_try (Suc fuel) rd en w =
        (case stream_loop (Suc fuel) rd en (n_connect w) 0 wb of
           (left, frame_num, w2) \<Rightarrow>
             if left then
               (case sock_close en (n_connect w) w2 of
                  (None, w3) \<Rightarrow> (Some (Inr ()), print_log (LogDisconnected frame_num) w3)
                | (Some e, w3) \<Rightarrow> (Some (Inl e), w3))
             else (None, w2))"
    using main_try_connected [OF c, of "Suc fuel" rd] by blast
  have nb: "n_sendall wb = n_sendall w" "n_sleep wb = n_sleep w" "n_close wb = n_close w"
    using sb by (simp_all add: sup_adv_def)
  have w1': "env_sendall en (n_sendall wb) = None"
    using w1 nb by simp
  have s1': "env_sleep en (n_sleep wb) = Some KeyboardInterrupt"
    using s1 nb by simp
  from stream_try_sent [OF b w1', of rd "n_connect w" 0]
  obtain wc where "stream_try rd en (n_connect w) 0 wb =
      (case env_sleep en (n_sleep wb) of None \<Rightarrow> Inr False | Some e \<Rightarrow> Inl e, 0 + 1, wc)"
    and "sup_adv wb [EvSendAll (n_connect w) [] None,
               EvLog (LogFrameSent (0 + 1) (hardware_available rd)),
               EvSleep 1 (env_sleep en (n_sleep wb))] 0 1 0 1 wc"
    by blast
  then have t: "stream_try rd en (n_connect w) 0 wb = (Inl KeyboardInterrupt, 1, wc)"
    and sc: "sup_adv wb [EvSendAll (n_connect w) [] None,
               EvLog (LogFrameSent 1 (hardware_available rd)),
               EvSleep 1 (Some KeyboardInterrupt)] 0 1 0 1 wc"
    using s1' by simp_all
  have l: "stream_loop (Suc fuel) rd en (n_connect w) 0 wb = (True, 1, print_log LogStopping wc)"
    by (simp add: t)
  have nc: "n_close wc = n_close w"
    using sc nb by (simp add: sup_adv_def)
  define wd where "wd = print_log (LogDisconnected 1)
      ((print_log LogStopping wc)\<lparr>trace := trace (print_log LogStopping wc)
           @ [EvClose (n_connect w) None], n_close := Suc (n_close wc)\<rparr>)"
  have sd: "sup_adv wc [EvLog LogStopping, EvClose (n_connect w) None,
      EvLog (LogDisconnected 1)] 0 0 1 0 wd"
    by (simp add: wd_def sup_adv_def print_log_def emit_def)
  have "main_try (Suc fuel) rd en w = (Some (Inr ()), wd)"
    using cl nc
    by (simp add: mt l sock_close_def wd_def Let_def print_log_def emit_def
        del: stream_loop.simps)
  then have m: "main_loop (Suc (Suc fuel)) rd en w = main_loop (Suc fuel) rd en wd"
    by (rule main_loop_continue)
  have "sup_adv w
          ([EvConnect (n_connect w) None, EvLog LogConnected, EvLog LogStartStreaming]
           @ [EvSendAll (n_connect w) [] None,
               EvLog (LogFrameSent 1 (hardware_available rd)),
               EvSleep 1 (Some KeyboardInterrupt)]
           @ [EvLog LogStopping, EvClose (n_connect w) None, EvLog (LogDisconnected 1)])
           (1 + (0 + 0)) (0 + (1 + 0)) (0 + (0 + 1)) (0 + (1 + 0)) wd"
    by (rule sup_adv_trans [OF sb sup_adv_trans [OF sc sd]])
  then have v: "sup_adv w
          [EvConnect (n_connect w) None, EvLog LogConnected, EvLog LogStartStreaming,
           EvSendAll (n_connect w) [] None,
           EvLog (LogFrameSent 1 (hardware_available rd)),
           EvSleep 1 (Some KeyboardInterrupt), EvLog LogStopping,
           EvClose (n_connect w) None, EvLog (LogDisconnected 1)] 1 1 1 1 wd"
    by simp
  show ?thesis
    using m v by blast
qed

lemma stream_loop_all_sent_view:
  assumes b: "float_repr_bounded en"
    and w: "\<forall>n \<ge> n_sendall w. env_sendall en n = None"
    and s: "\<forall>n \<ge> n_sleep w. env_sleep en n = None"
  shows "\<exists>w'. stream_loop fuel rd en sock fn w = (False, fn + fuel, w')
      \<and> sup_adv w (concat (map (\<lambda>i. sent_round sock (hardware_available rd) (fn + Suc i))
                      [0..<fuel])) 0 fuel 0 fuel w'"
  using w s
proof (induction fuel arbitrary: fn w)
  case 0
  show ?case by (simp add: sup_adv_def)
next
  case (Suc fuel)
  have w0: "env_sendall en (n_sendall w) = None"
    using Suc.prems by simp
  have s0: "env_sleep en (n_sleep w) = None"
    using Suc.prems by simp
  from stream_try_sent [OF b w0, of rd sock fn]
  obtain w1 where "stream_try rd en sock fn w =
      (case env_sleep en (n_sleep w) of None \<Rightarrow> Inr False | Some e \<Rightarrow> Inl e, fn + 1, w1)"
    and "sup_adv w [EvSendAll sock [] None,
               EvLog (LogFrameSent (fn + 1) (hardware_available rd)),
               EvSleep 1 (env_sleep en (n_sleep w))] 0 1 0 1 w1"
    by blast
  then have t: "stream_try rd en sock fn w = (Inr False, Suc fn, w1)"
    and a: "sup_adv w (sent_round sock (hardware_available rd) (Suc fn)) 0 1 0 1 w1"
    using s0 by (simp_all add: sent_round_def)
  have n: "n_sendall w1 = n_sendall w + 1" "n_sleep w1 = n_sleep w + 1"
    using a by (simp_all add: sup_adv_def)
  have "\<exists>w'. stream_loop fuel rd en sock (Suc fn) w1 = (False, Suc fn + fuel, w')
      \<and> sup_adv w1 (concat (map (\<lambda>i. sent_round sock (hardware_available rd) (Suc fn + Suc i))
                      [0..<fuel])) 0 fuel 0 fuel w'"
    using Suc.prems n by (intro Suc.IH) simp_all
  then obtain w' where l: "stream_loop fuel rd en sock (Suc fn) w1 = (False, Suc fn + fuel, w')"
    and v: "sup_adv w1 (concat (map (\<lambda>i. sent_round sock (hardware_available rd) (Suc fn + Suc i))
                      [0..<fuel])) 0 fuel 0 fuel w'"
    by blast
  have l': "stream_loop (Suc fuel) rd en sock fn w = (False, fn + Suc fuel, w')"
    using l by (simp only: stream_loop_continue [OF t]) simp
  have "sup_adv w (sent_round sock (hardware_available rd) (Suc fn)
          @ concat (map (\<lambda>i. sent_round sock (hardware_available rd) (Suc fn + Suc i)) [0..<fuel]))
          (0 + 0) (1 + fuel) (0 + 0) (1 + fuel) w'"
    by (rule sup_adv_trans [OF a v])
  then have "sup_adv w (concat (map (\<lambda>i. sent_round sock (hardware_available rd) (fn + Suc i))
                      [0..<Suc fuel])) 0 (Suc fuel) 0 (Suc fuel) w'"
    by (simp add: map_upt_Suc del: upt_Suc)
  then show ?case
    using l' by blast
qed

lemma main_loop_streams:
  assumes b: "float_repr_bounded en"
    and c: "env_connect en (n_connect w) = None"
    and w: "\<forall>n \<ge> n_sendall w. env_sendall en n = None"
    and s: "\<forall>n \<ge> n_sleep w. env_sleep en n = None"
  shows "\<exists>w'. main_loop (Suc fuel) rd en w = (OutOfFuel, w')
      \<and> sup_adv w ([EvConnect (n_connect w) None, EvLog LogConnected, EvLog LogStartStreaming]
           @ concat (map (\<lambda>i. sent_round (n_connect w) (hardware_available rd) (Suc i))
                      [0..<fuel])) 1 fuel 0 fuel w'"
proof -
  obtain wb where sb: "sup_adv w [EvConnect (n_connect w) None, EvLog LogConnected,
                          EvLog LogStartStreaming] 1 0 0 0 wb"
    and mt: "main_try fuel rd en w =
        (case stream_loop fuel rd en (n_connect w) 0 wb of
           (left, frame_num, w2) \<Rightarrow>
             if left then
               (case sock_close en (n_connect w) w2 of
                  (None, w3) \<Rightarrow> (Some (Inr ()), print_log (LogDisconnected frame_num) w3)
                | (Some e, w3) \<Rightarrow> (Some (Inl e), w3))
             else (None, w2))"
    using main_try_connected [OF c, of fuel rd] by blast
  have n: "n_sendall wb = n_sendall w" "n_sleep wb = n_sleep w"
    using sb by (simp_all add: sup_adv_def)
  have "\<exists>w'. stream_loop fuel rd en (n_connect w) 0 wb = (False, 0 + fuel, w')
      \<and> sup_adv wb (concat (map (\<lambda>i. sent_round (n_connect w) (hardware_available rd) (0 + Suc i))
                      [0..<fuel])) 0 fuel 0 fuel w'"
    using w s n by (intro stream_loop_all_sent_view [OF b]) simp_all
  then obtain w' where l: "stream_loop fuel rd en (n_connect w) 0 wb = (False, fuel, w')"
    and v: "sup_adv wb (concat (map (\<lambda>i. sent_round (n_connect w) (hardware_available rd) (Suc i))
                      [0..<fuel])) 0 fuel 0 fuel w'"
    by auto
  have "main_try fuel rd en w = (None, w')"
    by (simp add: mt l)
  then have m: "main_loop (Suc fuel) rd en w = (OutOfFuel, w')"
    by simp
  have "sup_adv w ([EvConnect (n_connect w) None, EvLog LogConnected, EvLog LogStartStreaming]
           @ concat (map (\<lambda>i. sent_round (n_connect w) (hardware_available rd) (Suc i))
                      [0..<fuel])) (1 + 0) (0 + fuel) (0 + 0) (0 + fuel) w'"
    by (rule sup_adv_trans [OF sb v])
  then show ?thesis
    using m by simp
qed

lemma sim_reader_not_live [simp]: "hardware_available sim_reader = False"
  by (simp add: sim_reader_def SMTCReader_init_def)

lemma env_quiet_bounded: "float_repr_bounded env_quiet"
  by (simp add: float_repr_bounded_def env_quiet_def)

theorem third_write_fails_witness:
  "float_repr_bounded env_third_write_fails
   \<and> env_connect env_third_write_fails (n_connect world0) = None
   \<and> env_sendall env_third_write_fails (n_sendall world0) = None
   \<and> env_sendall env_third_write_fails (n_sendall world0 + 1) = None
   \<and> env_sendall env_third_write_fails (n_sendall world0 + 2) = Some (Exception OSError)
   \<and> env_sleep env_third_write_fails (n_sleep world0) = None
   \<and> env_sleep env_third_write_fails (n_sleep world0 + 1) = None
   \<and> env_close env_third_write_fails (n_close world0) = None
   \<and> (\<exists>w'. main_loop (Suc (Suc (Suc (Suc 0)))) sim_reader env_third_write_fails world0
               = (OutOfFuel, w')
          \<and> supervisor_view (trace w') =
              [EvConnect 0 None, EvLog LogConnected, EvLog LogStartStreaming,
               EvSendAll 0 [] None, EvLog (LogFrameSent 1 False), EvSleep 1 None,
               EvSendAll 0 [] None, EvLog (LogFrameSent 2 False), EvSleep 1 None,
               EvSendAll 0 [] (Some (Exception OSError)), EvLog (LogSendError OSError),
               EvLog (LogFailedAfter 3),
               EvClose 0 None, EvLog (LogDisconnected 3),
               EvConnect 1 None, EvLog LogConnected, EvLog LogStartStreaming,
               EvSendAll 1 [] None, EvLog (LogFrameSent 1 False), EvSleep 1 None,
               EvSendAll 1 [] None, EvLog (LogFrameSent 2 False), EvSleep 1 None])"
proof -
  let ?en = env_third_write_fails
  have b: "float_repr_bounded ?en"
    by (simp add: float_repr_bounded_def env_third_write_fails_def env_quiet_def)
  have h: "env_connect ?en (n_connect world0) = None"
      "env_sendall ?en (n_sendall world0) = None"
      "env_sendall ?en (n_sendall world0 + 1) = None"
      "env_sendall ?en (n_sendall world0 + 2) = Some (Exception OSError)"
      "env_sleep ?en (n_sleep world0) = None"
      "env_sleep ?en (n_sleep world0 + 1) = None"
      "env_close ?en (n_close world0) = None"
    by (simp_all add: env_third_write_fails_def env_quiet_def world0_def)
  from third_write_fails [OF b h, of 0 sim_reader]
  obtain w1 where m1: "main_loop (Suc (Suc (Suc (Suc 0)))) sim_reader ?en world0 =
               main_loop (Suc (Suc (Suc 0))) sim_reader ?en w1"
    and v1: "sup_adv world0
          [EvConnect (n_connect world0) None, EvLog LogConnected, EvLog LogStartStreaming,
           EvSendAll (n_connect world0) [] None,
           EvLog (LogFrameSent 1 (hardware_available sim_reader)), EvSleep 1 None,
           EvSendAll (n_connect world0) [] None,
           EvLog (LogFrameSent 2 (hardware_available sim_reader)), EvSleep 1 None,
           EvSendAll (n_connect world0) [] (Some (Exception OSError)), EvLog (LogSendError OSError),
           EvLog (LogFailedAfter 3),
           EvClose (n_connect world0) None, EvLog (LogDisconnected 3)] 1 3 1 2 w1"
    by blast
  have n1: "n_connect w1 = 1" "n_sendall w1 = 3" "n_sleep w1 = 2"
    using v1 by (simp_all add: sup_adv_def world0_def)
  have c1: "env_connect ?en (n_connect w1) = None"
    by (simp add: env_third_write_fails_def env_quiet_def)
  have a1: "\<forall>n \<ge> n_sendall w1. env_sendall ?en n = None"
    by (simp add: n1 env_third_write_fails_def)
  have s1: "\<forall>n \<ge> n_sleep w1. env_sleep ?en n = None"
    by (simp add: env_third_write_fails_def env_quiet_def)
  from main_loop_streams [OF b c1 a1 s1, of "Suc (Suc 0)" sim_reader]
  obtain w2 where m2: "main_loop (Suc (Suc (Suc 0))) sim_reader ?en w1 = (OutOfFuel, w2)"
    and v2: "sup_adv w1 ([EvConnect (n_connect w1) None, EvLog LogConnected, EvLog LogStartStreaming]
           @ concat (map (\<lambda>i. sent_round (n_connect w1) (hardware_available sim_reader) (Suc i))
                      [0..<Suc (Suc 0)])) 1 (Suc (Suc 0)) 0 (Suc (Suc 0)) w2"
    by blast
  have "supervisor_view (trace w2) =
              [EvConnect 0 None, EvLog LogConnected, EvLog LogStartStreaming,
               EvSendAll 0 [] None, EvLog (LogFrameSent 1 False), EvSleep 1 None,
               EvSendAll 0 [] None, EvLog (LogFrameSent 2 False), EvSleep 1 None,
               EvSendAll 0 [] (Some (Exception OSError)), EvLog (LogSendError OSError),
               EvLog (LogFailedAfter 3),
               EvClose 0 None, EvLog (LogDisconnected 3),
               EvConnect 1 None, EvLog LogConnected, EvLog LogStartStreaming,
               EvSendAll 1 [] None, EvLog (LogFrameSent 1 False), EvSleep 1 None,
               EvSendAll 1 [] None, EvLog (LogFrameSent 2 False), EvSleep 1 None]"
    using v1 v2 by (simp add: sup_adv_def n1 world0_def sent_round_def numeral_2_eq_2)
  then show ?thesis
    using b h m1 m2 by simp
qed

text \<open>
  C3 against the code. An interrupt that arrives in the sleep between two
  frames is caught by the handler of line 232, which prints the stopping line
  and leaves the streaming loop only. The socket is closed, and the outer loop
  goes on: with connects and writes succeeding, the supervisor connects again
  and sends further frames, and for no amount of fuel has the process exited.
  The claim asks for no further frame and an exit with code 0, which is what
  the handler of line 242 does for an interrupt outside the streaming loop.
  Floats are taken to print in at most 32 characters.
\<close>

theorem interrupt_between_frames_reconnects:
  assumes b: "float_repr_bounded en"
    and c: "\<forall>n. env_connect en n = None"
    and a: "\<forall>n. env_sendall en n = None"
    and i: "env_sleep en (n_sleep w) = Some KeyboardInterrupt"
    and s: "\<forall>n > n_sleep w. env_sleep en n = None"
    and cl: "env_close en (n_close w) = None"
  shows "fst (main_loop fuel rd en w) = OutOfFuel
     \<and> (\<exists>w'. main_loop (Suc (Suc (Suc k))) rd en w = (OutOfFuel, w')
          \<and> sup_adv w
              ([EvConnect (n_connect w) None, EvLog LogConnected, EvLog LogStartStreaming,
                EvSendAll (n_connect w) [] None,
                EvLog (LogFrameSent 1 (hardware_available rd)),
                EvSleep 1 (Some KeyboardInterrupt), EvLog LogStopping,
                EvClose (n_connect w) None, EvLog (LogDisconnected 1),
                EvConnect (Suc (n_connect w)) None, EvLog LogConnected, EvLog LogStartStreaming]
               @ concat (map (\<lambda>i. sent_round (Suc (n_connect w)) (hardware_available rd) (Suc i))
                          [0..<Suc k]))
              2 (Suc (Suc k)) 1 (Suc (Suc k)) w')"
proof -
  have c0: "env_connect en (n_connect w) = None"
    using c by simp
  have a0: "env_sendall en (n_sendall w) = None"
    using a by simp
  have step: "\<exists>w1. main_loop (Suc (Suc j)) rd en w = main_loop (Suc j) rd en w1
      \<and> sup_adv w
          [EvConnect (n_connect w) None, EvLog LogConnected, EvLog LogStartStreaming,
           EvSendAll (n_connect w) [] None,
           EvLog (LogFrameSent 1 (hardware_available rd)),
           EvSleep 1 (Some KeyboardInterrupt), EvLog LogStopping,
           EvClose (n_connect w) None, EvLog (LogDisconnected 1)] 1 1 1 1 w1" for j
    by (rule interrupted_sleep_reconnects [OF b c0 a0 i cl])
  have after: "\<exists>w2. main_loop (Suc j) rd en w1 = (OutOfFuel, w2)
      \<and> sup_adv w1 ([EvConnect (n_connect w1) None, EvLog LogConnected, EvLog LogStartStreaming]
           @ concat (map (\<lambda>i. sent_round (n_connect w1) (hardware_available rd) (Suc i))
                      [0..<j])) 1 j 0 j w2"
    if "n_sleep w1 = n_sleep w + 1" for w1 j
  proof (rule main_loop_streams [OF b])
    show "env_connect en (n_connect w1) = None"
      using c by simp
    show "\<forall>n \<ge> n_sendall w1. env_sendall en n = None"
      using a by simp
    show "\<forall>n \<ge> n_sleep w1. env_sleep en n = None"
      using s that by simp
  qed
  have never: "fst (main_loop fuel rd en w) = OutOfFuel"
  proof (cases fuel)
    case 0
    then show ?thesis by simp
  next
    case (Suc f1)
    show ?thesis
    proof (cases f1)
      case 0
      obtain wb where mt: "main_try 0 rd en w =
        (case stream_loop 0 rd en (n_connect w) 0 wb of
           (left, frame_num, w2) \<Rightarrow>
             if left then
               (case sock_close en (n_connect w) w2 of
                  (None, w3) \<Rightarrow> (Some (Inr ()), print_log (LogDisconnected frame_num) w3)
                | (Some e, w3) \<Rightarrow> (Some (Inl e), w3))
             else (None, w2))"
        using main_try_connected [OF c0, of 0 rd] by blast
      then have "main_try 0 rd en w = (None, wb)"
        by simp
      then show ?thesis
        using Suc 0 by simp
    next
      case (Suc j)
      obtain w1 where m1: "main_loop (Suc (Suc j)) rd en w = main_loop (Suc j) rd en w1"
        and v1: "sup_adv w
          [EvConnect (n_connect w) None, EvLog LogConnected, EvLog LogStartStreaming,
           EvSendAll (n_connect w) [] None,
           EvLog (LogFrameSent 1 (hardware_available rd)),
           EvSleep 1 (Some KeyboardInterrupt), EvLog LogStopping,
           EvClose (n_connect w) None, EvLog (LogDisconnected 1)] 1 1 1 1 w1"
        using step [of j] by blast
      have "n_sleep w1 = n_sleep w + 1"
        using v1 by (simp add: sup_adv_def)
      then obtain w2 where "main_loop (Suc j) rd en w1 = (OutOfFuel, w2)"
        using after [of w1 j] by blast
      then show ?thesis
        using m1 \<open>fuel = Suc f1\<close> Suc by simp
    qed
  qed
  obtain w1 where m1: "main_loop (Suc (Suc (Suc k))) rd en w = main_loop (Suc (Suc k)) rd en w1"
    and v1: "sup_adv w
          [EvConnect (n_connect w) None, EvLog LogConnected, EvLog LogStartStreaming,
           EvSendAll (n_connect w) [] None,
           EvLog (LogFrameSent 1 (hardware_available rd)),
           EvSleep 1 (Some KeyboardInterrupt), EvLog LogStopping,
           EvClose (n_connect w) None, EvLog (LogDisconnected 1)] 1 1 1 1 w1"
    using step [of "Suc k"] by blast
  have n1: "n_sleep w1 = n_sleep w + 1" "n_connect w1 = Suc (n_connect w)"
    using v1 by (simp_all add: sup_adv_def)
  obtain w2 where m2: "main_loop (Suc (Suc k)) rd en w1 = (OutOfFuel, w2)"
    and v2: "sup_adv w1 ([EvConnect (n_connect w1) None, EvLog LogConnected, EvLog LogStartStreaming]
           @ concat (map (\<lambda>i. sent_round (n_connect w1) (hardware_available rd) (Suc i))
                      [0..<Suc k])) 1 (Suc k) 0 (Suc k) w2"
    using after [OF n1(1), of "Suc k"] by blast
  have "sup_adv w
          ([EvConnect (n_connect w) None, EvLog LogConnected, EvLog LogStartStreaming,
           EvSendAll (n_connect w) [] None,
           EvLog (LogFrameSent 1 (hardware_available rd)),
           EvSleep 1 (Some KeyboardInterrupt), EvLog LogStopping,
           EvClose (n_connect w) None, EvLog (LogDisconnected 1)]
           @ ([EvConnect (n_connect w1) None, EvLog LogConnected, EvLog LogStartStreaming]
           @ concat (map (\<lambda>i. sent_round (n_connect w1) (hardware_available rd) (Suc i))
                      [0..<Suc k])))
           (1 + 1) (1 + Suc k) (1 + 0) (1 + Suc k) w2"
    by (rule sup_adv_trans [OF v1 v2])
  then have v: "sup_adv w
              ([EvConnect (n_connect w) None, EvLog LogConnected, EvLog LogStartStreaming,
                EvSendAll (n_connect w) [] None,
                EvLog (LogFrameSent 1 (hardware_available rd)),
                EvSleep 1 (Some KeyboardInterrupt), EvLog LogStopping,
                EvClose (n_connect w) None, EvLog (LogDisconnected 1),
                EvConnect (Suc (n_connect w)) None, EvLog LogConnected, EvLog LogStartStreaming]
               @ concat (map (\<lambda>i. sent_round (Suc (n_connect w)) (hardware_available rd) (Suc i))
                          [0..<Suc k]))
              2 (Suc (Suc k)) 1 (Suc (Suc k)) w2"
    by (simp add: n1 numeral_2_eq_2 del: upt_Suc)
  have "main_loop (Suc (Suc (Suc k))) rd en w = (OutOfFuel, w2)"
    using m1 m2 by (simp del: main_loop.simps)
  then show ?thesis
    using never v by blast
qed

theorem interrupt_between_frames_reconnects_witness:
  "float_repr_bounded env_interrupt_once
   \<and> (\<forall>n. env_connect env_interrupt_once n = None)
   \<and> (\<forall>n. env_sendall env_interrupt_once n = None)
   \<and> env_sleep env_interrupt_once (n_sleep world0) = Some KeyboardInterrupt
   \<and> (\<forall>n. env_sleep env_interrupt_once (n_sleep world0 + Suc n) = None)
   \<and> env_close env_interrupt_once (n_close world0) = None
   \<and> (\<forall>fuel. fst (main_loop fuel sim_reader env_interrupt_once world0) = OutOfFuel)
   \<and> (\<exists>w'. main_loop (Suc (Suc (Suc 0))) sim_reader env_interrupt_once world0 = (OutOfFuel, w')
          \<and> supervisor_view (trace w') =
              [EvConnect 0 None, EvLog LogConnected, EvLog LogStartStreaming,
               EvSendAll 0 [] None, EvLog (LogFrameSent 1 False),
               EvSleep 1 (Some KeyboardInterrupt), EvLog LogStopping,
               EvClose 0 None, EvLog (LogDisconnected 1),
               EvConnect 1 None, EvLog LogConnected, EvLog LogStartStreaming,
               EvSendAll 1 [] None, EvLog (LogFrameSent 1 False), EvSleep 1 None])"
proof -
  let ?en = env_interrupt_once
  have b: "float_repr_bounded ?en"
    by (simp add: float_repr_bounded_def env_interrupt_once_def env_quiet_def)
  have c: "\<forall>n. env_connect ?en n = None"
    and a: "\<forall>n. env_sendall ?en n = None"
    and i: "env_sleep ?en (n_sleep world0) = Some KeyboardInterrupt"
    and s: "\<forall>n > n_sleep world0. env_sleep ?en n = None"
    and cl: "env_close ?en (n_close world0) = None"
    by (simp_all add: env_interrupt_once_def env_quiet_def world0_def)
  have never: "\<forall>fuel. fst (main_loop fuel sim_reader ?en world0) = OutOfFuel"
    using interrupt_between_frames_reconnects [OF b c a i s cl, of _ sim_reader 0] by blast
  from interrupt_between_frames_reconnects [OF b c a i s cl, of 0 sim_reader 0]
  obtain w' where m: "main_loop (Suc (Suc (Suc 0))) sim_reader ?en world0 = (OutOfFuel, w')"
    and v: "sup_adv world0
              ([EvConnect (n_connect world0) None, EvLog LogConnected, EvLog LogStartStreaming,
                EvSendAll (n_connect world0) [] None,
                EvLog (LogFrameSent 1 (hardware_available sim_reader)),
                EvSleep 1 (Some KeyboardInterrupt), EvLog LogStopping,
                EvClose (n_connect world0) None, EvLog (LogDisconnected 1),
                EvConnect (Suc (n_connect world0)) None, EvLog LogConnected, EvLog LogStartStreaming]
               @ concat (map (\<lambda>i. sent_round (Suc (n_connect world0)) (hardware_available sim_reader) (Suc i))
                          [0..<Suc 0]))
              2 (Suc (Suc 0)) 1 (Suc (Suc 0)) w'"
    by blast
  have "supervisor_view (trace w') =
              [EvConnect 0 None, EvLog LogConnected, EvLog LogStartStreaming,
               EvSendAll 0 [] None, EvLog (LogFrameSent 1 False),
               EvSleep 1 (Some KeyboardInterrupt), EvLog LogStopping,
               EvClose 0 None, EvLog (LogDisconnected 1),
               EvConnect 1 None, EvLog LogConnected, EvLog LogStartStreaming,
               EvSendAll 1 [] None, EvLog (LogFrameSent 1 False), EvSleep 1 None]"
    using v by (simp add: sup_adv_def world0_def sent_round_def)
  moreover have "\<forall>n. env_sleep ?en (n_sleep world0 + Suc n) = None"
    by (simp add: env_interrupt_once_def world0_def)
  ultimately show ?thesis
    using b c a i cl never m by blast
qed

section \<open>Every frame of a run\<close>

lemma frames_adv_refl: "frames_adv P w w"
  by (simp add: frames_adv_def)

lemma frames_adv_trans: "frames_adv P w w1 \<Longrightarrow> frames_adv P w1 w2 \<Longrightarrow> frames_adv P w w2"
  by (auto simp add: frames_adv_def)

lemma frames_adv_same:
  "frames_written (trace w') = frames_written (trace w) \<Longrightarrow> frames_adv P w w'"
  by (simp add: frames_adv_def)

lemma frames_adv_print_log: "frames_adv P w (print_log m w)"
  by (simp add: frames_adv_def print_log_def emit_def)

lemma frames_adv_time_sleep: "frames_adv P w (snd (time_sleep en secs w))"
  by (simp add: frames_adv_def time_sleep_def Let_def)

lemma frames_adv_sock_close: "frames_adv P w (snd (sock_close en sock w))"
  by (simp add: frames_adv_def sock_close_def Let_def)

lemma frames_adv_connect: "frames_adv P w (snd (connect_to_ipad en w))"
  by (simp add: frames_adv_def connect_to_ipad_def print_log_def emit_def Let_def
      split: option.split raised.split)

lemma frames_adv_sweep: "frames_adv P w (snd (read_temperature_data rd en w))"
  by (rule frames_adv_same) (rule sweep_frames)

lemma temperature_frame_sent:
  "frames_adv (is_temperature_frame en) w1
     (snd (send_peertalk_frame en sock FRAME_TYPE_TEMPERATURE
        (PDict (fst (read_temperature_data rd en w))) w1))"
proof -
  obtain cht egt t where s: "fst (read_temperature_data rd en w) =
       [(''cht'', JList (map JFloat cht)), (''egt'', JList (map JFloat egt)),
        (''timestamp'', JFloat t), (''unit'', JStr ''F'')]"
     and l: "length cht = 6" "length egt = 6"
    using snapshot_shape by blast
  have "is_temperature_frame en
     (u32_be 1 @ u32_be 100 @ u32_be 0
        @ u32_be (int (length (payload_bytes_of en (PDict (fst (read_temperature_data rd en w))))))
        @ payload_bytes_of en (PDict (fst (read_temperature_data rd en w))))"
    if "fits_u32 (int (length (payload_bytes_of en (PDict (fst (read_temperature_data rd en w))))))"
    using that unfolding is_temperature_frame_def s payload_bytes_of_def payload.case
    using l by blast
  then show ?thesis
    by (simp add: frames_adv_def send_peertalk_frame_written FRAME_TYPE_TEMPERATURE_def)
qed

lemma frames_adv_stream_sleep: "frames_adv P w (snd (snd (stream_sleep en fn w)))"
  using frames_adv_time_sleep [of P w en 1]
  by (simp add: stream_sleep_def case_prod_beta split: option.split)

lemma frames_adv_stream_try:
  "frames_adv (is_temperature_frame en) w (snd (snd (stream_try rd en sock fn w)))"
proof -
  let ?P = "is_temperature_frame en"
  obtain snap w1 where r: "read_temperature_data rd en w = (snap, w1)"
    by (cases "read_temperature_data rd en w")
  have a1: "frames_adv ?P w w1"
    using frames_adv_sweep [of ?P w rd en] r by simp
  obtain res w2 where sd: "send_peertalk_frame en sock FRAME_TYPE_TEMPERATURE (PDict snap) w1 = (res, w2)"
    by (cases "send_peertalk_frame en sock FRAME_TYPE_TEMPERATURE (PDict snap) w1")
  have a2: "frames_adv ?P w1 w2"
    using temperature_frame_sent [of en w1 sock rd w] r sd by simp
  have a12: "frames_adv ?P w w2"
    by (rule frames_adv_trans [OF a1 a2])
  have a3: "frames_adv ?P w (snd (snd (stream_sleep en k (print_log m w2))))" for k m
    by (rule frames_adv_trans [OF a12 frames_adv_trans [OF frames_adv_print_log frames_adv_stream_sleep]])
  have a4: "frames_adv ?P w (print_log m w2)" for m
    by (rule frames_adv_trans [OF a12 frames_adv_print_log])
  have a5: "frames_adv ?P w (snd (snd (stream_sleep en k w1)))" for k
    by (rule frames_adv_trans [OF a1 frames_adv_stream_sleep])
  show ?thesis
    using a12 a3 a4 a5
    by (simp add: stream_try_def r sd split: sum.split)
qed

lemma frames_adv_stream_loop:
  "frames_adv (is_temperature_frame en) w (snd (snd (stream_loop fuel rd en sock fn w)))"
proof (induction fuel arbitrary: fn w)
  case 0
  show ?case by (simp add: frames_adv_refl)
next
  case (Suc fuel)
  obtain res fn' w' where t: "stream_try rd en sock fn w = (res, fn', w')"
    by (cases "stream_try rd en sock fn w")
  have a: "frames_adv (is_temperature_frame en) w w'"
    using frames_adv_stream_try [of en w rd sock fn] t by simp
  have b: "frames_adv (is_temperature_frame en) w (print_log m w')" for m
    by (rule frames_adv_trans [OF a frames_adv_print_log])
  have c: "frames_adv (is_temperature_frame en) w (snd (snd (stream_loop fuel rd en sock fn' w')))"
    by (rule frames_adv_trans [OF a Suc.IH])
  show ?case
    using a b c by (simp add: t split: sum.split raised.split)
qed

lemma frames_adv_main_try:
  "frames_adv (is_temperature_frame en) w (snd (main_try fuel rd en w))"
proof -
  let ?P = "is_temperature_frame en"
  obtain r w1 where c: "connect_to_ipad en w = (r, w1)"
    by (cases "connect_to_ipad en w")
  have a1: "frames_adv ?P w w1"
    using frames_adv_connect [of ?P w en] c by simp
  have a2: "frames_adv ?P w (snd (time_sleep en 5 (print_log LogRetrying w1)))"
    by (rule frames_adv_trans [OF a1 frames_adv_trans [OF frames_adv_print_log frames_adv_time_sleep]])
  have a3: "frames_adv ?P w (snd (snd (stream_loop fuel rd en sock 0 (print_log LogStartStreaming w1))))"
    for sock
    by (rule frames_adv_trans [OF a1 frames_adv_trans [OF frames_adv_print_log frames_adv_stream_loop]])
  have a4: "frames_adv ?P w
      (snd (sock_close en sock (snd (snd (stream_loop fuel rd en sock 0 (print_log LogStartStreaming w1))))))"
    for sock
    by (rule frames_adv_trans [OF a3 frames_adv_sock_close])
  have a5: "frames_adv ?P w
      (print_log m (snd (sock_close en sock (snd (snd (stream_loop fuel rd en sock 0 (print_log LogStartStreaming w1)))))))"
    for sock m
    by (rule frames_adv_trans [OF a4 frames_adv_print_log])
  show ?thesis
    using a1 a2 a3 a4 a5
    by (simp add: main_try_def c case_prod_beta split: sum.split option.split)
qed

lemma frames_adv_main_loop:
  "frames_adv (is_temperature_frame en) w (snd (main_loop fuel rd en w))"
proof (induction fuel arbitrary: w)
  case 0
  show ?case by (simp add: frames_adv_refl)
next
  case (Suc fuel)
  let ?P = "is_temperature_frame en"
  obtain r w1 where t: "main_try fuel rd en w = (r, w1)"
    by (cases "main_try fuel rd en w")
  have a1: "frames_adv ?P w w1"
    using frames_adv_main_try [of en w fuel rd] t by simp
  have a2: "frames_adv ?P w (snd (main_loop fuel rd en w1))"
    by (rule frames_adv_trans [OF a1 Suc.IH])
  have a3: "frames_adv ?P w (emit (EvExit 0) (print_log LogShuttingDown w1))"
    using a1 by (simp add: frames_adv_def print_log_def emit_def)
  have a4: "frames_adv ?P w (snd (time_sleep en 5 (print_log m w1)))" for m
    by (rule frames_adv_trans [OF a1 frames_adv_trans [OF frames_adv_print_log frames_adv_time_sleep]])
  have a5: "frames_adv ?P w (snd (main_loop fuel rd en (snd (time_sleep en 5 (print_log m w1)))))" for m
    by (rule frames_adv_trans [OF a4 Suc.IH])
  show ?case
    using a1 a2 a3 a4 a5
    by (simp add: t case_prod_beta split: sum.split option.split raised.split)
qed

lemma temperature_frame_tag:
  assumes "is_temperature_frame en f"
  shows "take 4 (drop 8 f) = [0, 0, 0, 0] \<and> tag_of f = 0"
  using assms
  by (auto simp add: is_temperature_frame_def tag_of_def u32_be_0 [symmetric]
      simp del: be_to_int.simps) (simp add: u32_be_0)

lemma sim_quiet_sweep_any:
  "read_temperature_data sim_reader env_quiet w =
     ([(''cht'', JList (map JFloat [350, 350, 350, 350, 350, 350])),
       (''egt'', JList (map JFloat [1350, 1350, 1350, 1350, 1350, 1350])),
       (''timestamp'', JFloat (real (length (trace w)) + 12)),
       (''unit'', JStr ''F'')],
      w\<lparr>trace := trace w @
         [EvRandom (1 / 2), EvRandom (1 / 2), EvRandom (1 / 2), EvRandom (1 / 2),
          EvRandom (1 / 2), EvRandom (1 / 2), EvRandom (1 / 2), EvRandom (1 / 2),
          EvRandom (1 / 2), EvRandom (1 / 2), EvRandom (1 / 2), EvRandom (1 / 2),
          EvTime (real (length (trace w)) + 12)], n_random := n_random w + 12\<rparr>)"
  by (simp add: read_temperature_data_def py_range_6 sim_quiet_cht sim_quiet_egt
      time_time_def emit_def Let_def)
    (simp add: env_quiet_def)

lemma quiet_payload:
  "payload_bytes_of env_quiet (PDict
     [(''cht'', JList [JFloat c0, JFloat c1, JFloat c2, JFloat c3, JFloat c4, JFloat c5]),
      (''egt'', JList [JFloat e0, JFloat e1, JFloat e2, JFloat e3, JFloat e4, JFloat e5]),
      (''timestamp'', JFloat t), (''unit'', JStr ''F'')]) =
   encode_utf8 (''{'' @ quoted ''cht'' @ '': [0.0, 0.0, 0.0, 0.0, 0.0, 0.0], ''
      @ quoted ''egt'' @ '': [0.0, 0.0, 0.0, 0.0, 0.0, 0.0], ''
      @ quoted ''timestamp'' @ '': 0.0, ''
      @ quoted ''unit'' @ '': '' @ quoted ''F'' @ ''}'')"
  by (simp add: payload_bytes_of_def json_dumps_def env_quiet_def)

lemma quiet_payload_length:
  "length (encode_utf8 (''{'' @ quoted ''cht'' @ '': [0.0, 0.0, 0.0, 0.0, 0.0, 0.0], ''
      @ quoted ''egt'' @ '': [0.0, 0.0, 0.0, 0.0, 0.0, 0.0], ''
      @ quoted ''timestamp'' @ '': 0.0, ''
      @ quoted ''unit'' @ '': '' @ quoted ''F'' @ ''}'')) = 109"
  by (simp add: encode_utf8_def quoted_def)

lemma quiet_first_frame:
  "frames_written (trace (snd (main (Suc (Suc 0)) sim_reader env_quiet))) =
     [[0, 0, 0, 1, 0, 0, 0, 100, 0, 0, 0, 0, 0, 0, 0, 109] @
      encode_utf8 (''{'' @ quoted ''cht'' @ '': [0.0, 0.0, 0.0, 0.0, 0.0, 0.0], ''
      @ quoted ''egt'' @ '': [0.0, 0.0, 0.0, 0.0, 0.0, 0.0], ''
      @ quoted ''timestamp'' @ '': 0.0, ''
      @ quoted ''unit'' @ '': '' @ quoted ''F'' @ ''}'')]"
proof -
  have c: "connect_to_ipad env_quiet world0 =
      (Inr (Some 0), world0\<lparr>trace := [EvConnect 0 None, EvLog LogConnected], n_connect := Suc 0\<rparr>)"
    by (simp add: connect_to_ipad_def env_quiet_def world0_def print_log_def emit_def Let_def)
  have f: "frames_written (trace (snd (snd (stream_try sim_reader env_quiet 0 0 w)))) =
     frames_written (trace w) @ [[0, 0, 0, 1, 0, 0, 0, 100, 0, 0, 0, 0, 0, 0, 0, 109] @
      encode_utf8 (''{'' @ quoted ''cht'' @ '': [0.0, 0.0, 0.0, 0.0, 0.0, 0.0], ''
      @ quoted ''egt'' @ '': [0.0, 0.0, 0.0, 0.0, 0.0, 0.0], ''
      @ quoted ''timestamp'' @ '': 0.0, ''
      @ quoted ''unit'' @ '': '' @ quoted ''F'' @ ''}'')]" for w
  proof -
    have fit: "fits_u32 109"
      by (simp add: fits_u32_def)
    have h: "u32_be 1 @ u32_be 100 @ u32_be 0 @ u32_be 109 =
        [0, 0, 0, 1, 0, 0, 0, 100, 0, 0, 0, 0, 0, 0, 0, 109]"
      by (simp add: u32_be_def)
    have s: "env_sendall env_quiet n = None" "env_sleep env_quiet n = None" for n
      by (simp_all add: env_quiet_def)
    show ?thesis
      unfolding stream_try_def sim_quiet_sweep_any
      by (simp add: send_peertalk_frame_def quiet_payload quiet_payload_length
          struct_pack_IIII_def fit FRAME_TYPE_TEMPERATURE_def PTPROTOCOL_VERSION_def
          sock_sendall_def s stream_sleep_def time_sleep_def print_log_def emit_def Let_def
          h [simplified] del: append.simps)
  qed
  let ?wb = "print_log LogStartStreaming
      (world0\<lparr>trace := [EvConnect 0 None, EvLog LogConnected], n_connect := Suc 0\<rparr>)"
  have b: "float_repr_bounded env_quiet"
    by (rule env_quiet_bounded)
  have s0: "env_sendall env_quiet (n_sendall ?wb) = None"
    by (simp add: env_quiet_def)
  from stream_try_sent [OF b s0, of sim_reader 0 0]
  obtain w1 where "stream_try sim_reader env_quiet 0 0 ?wb =
      (case env_sleep env_quiet (n_sleep ?wb) of None \<Rightarrow> Inr False | Some e \<Rightarrow> Inl e, 0 + 1, w1)"
    by blast
  then have t: "stream_try sim_reader env_quiet 0 0 ?wb = (Inr False, 1, w1)"
    by (simp add: env_quiet_def)
  have "stream_loop (Suc 0) sim_reader env_quiet 0 0 ?wb = stream_loop 0 sim_reader env_quiet 0 1 w1"
    by (rule stream_loop_continue [OF t])
  then have l: "stream_loop (Suc 0) sim_reader env_quiet 0 0 ?wb = (False, 1, w1)"
    by simp
  have "main_try (Suc 0) sim_reader env_quiet world0 = (None, w1)"
    by (simp add: main_try_def c l del: stream_loop.simps)
  then have m: "main (Suc (Suc 0)) sim_reader env_quiet = (OutOfFuel, w1)"
    by (simp add: main_def)
  have "frames_written (trace w1) = frames_written (trace ?wb) @
      [[0, 0, 0, 1, 0, 0, 0, 100, 0, 0, 0, 0, 0, 0, 0, 109] @
      encode_utf8 (''{'' @ quoted ''cht'' @ '': [0.0, 0.0, 0.0, 0.0, 0.0, 0.0], ''
      @ quoted ''egt'' @ '': [0.0, 0.0, 0.0, 0.0, 0.0, 0.0], ''
      @ quoted ''timestamp'' @ '': 0.0, ''
      @ quoted ''unit'' @ '': '' @ quoted ''F'' @ ''}'')]"
    using f [of ?wb] t by simp
  moreover have "frames_written (trace ?wb) = []"
    by (simp add: print_log_def emit_def)
  ultimately show ?thesis
    using m by simp
qed

lemma written_frame_tag:
  "\<exists>fs. frames_written (trace (snd (send_peertalk_frame en sock frame_type pd w))) =
          frames_written (trace w) @ fs
      \<and> list_all (\<lambda>f. take 4 (drop 8 f) = [0, 0, 0, 0] \<and> tag_of f = 0) fs"
  by (simp add: send_peertalk_frame_written tag_of_def u32_be_0)

lemma main_frames:
  "list_all (is_temperature_frame en) (frames_written (trace (snd (main fuel rd en))))"
  using frames_adv_main_loop [of en world0 fuel rd]
  by (simp add: main_def frames_adv_def) (simp add: world0_def)

text \<open>
  C10. Whatever the arguments of \<open>send_peertalk_frame\<close>, the bytes it hands to
  \<open>sendall\<close> carry four zero bytes at offsets 8 to 11: the tag is the literal
  0 of line 159 and no parameter reaches it. Hence every frame written in a
  run of \<open>main\<close>, for every reader, environment and amount of fuel, has tag 0.
\<close>

theorem tag_always_zero:
  "(\<exists>fs. frames_written (trace (snd (send_peertalk_frame en sock frame_type pd w))) =
          frames_written (trace w) @ fs
      \<and> list_all (\<lambda>f. take 4 (drop 8 f) = [0, 0, 0, 0] \<and> tag_of f = 0) fs)
   \<and> list_all (\<lambda>f. take 4 (drop 8 f) = [0, 0, 0, 0] \<and> tag_of f = 0)
        (frames_written (trace (snd (main fuel rd en))))"
proof -
  have "list_all (\<lambda>f. take 4 (drop 8 f) = [0, 0, 0, 0] \<and> tag_of f = 0)
        (frames_written (trace (snd (main fuel rd en))))"
    using main_frames [of en fuel rd] temperature_frame_tag [of en]
    by (simp add: list_all_iff)
  then show ?thesis
    using written_frame_tag by blast
qed

theorem tag_always_zero_witness:
  "\<exists>frame. frames_written (trace (snd (main (Suc (Suc 0)) sim_reader env_quiet))) = [frame]
      \<and> take 16 frame = [0, 0, 0, 1, 0, 0, 0, 100, 0, 0, 0, 0, 0, 0, 0, 109]
      \<and> take 4 (drop 8 frame) = [0, 0, 0, 0]
      \<and> tag_of frame = 0"
  using tag_always_zero [of env_quiet 0 100 "PBytes []" world0 "Suc (Suc 0)" sim_reader]
  by (simp add: quiet_first_frame)

section \<open>The payload of a temperature frame, byte by byte\<close>

lemma unat_encode_utf8: "map unat (encode_utf8 s) = map of_char s"
  by (simp add: encode_utf8_def unat_of_nat)

lemma six_elements: "length xs = 6 \<Longrightarrow> \<exists>a b c d e f. xs = [a, b, c, d, e, f]"
  by (auto simp add: numeral_eq_Suc length_Suc_conv)

lemma u32_be_100: "u32_be 100 = [0, 0, 0, 100]"
  by (simp add: u32_be_def)

lemma temperature_frame_bytes:
  assumes "is_temperature_frame en f"
  shows "is_json_snapshot_frame (env_float_repr en) f"
proof -
  obtain cht egt t payload where l: "length cht = 6" "length egt = 6"
    and p: "payload = encode_utf8 (json_dumps (env_float_repr en)
           [(''cht'', JList (map JFloat cht)), (''egt'', JList (map JFloat egt)),
            (''timestamp'', JFloat t), (''unit'', JStr ''F'')])"
    and fit: "fits_u32 (int (length payload))"
    and f: "f = u32_be 1 @ u32_be 100 @ u32_be 0 @ u32_be (int (length payload)) @ payload"
    using assms unfolding is_temperature_frame_def by blast
  obtain c0 c1 c2 c3 c4 c5 where c: "cht = [c0, c1, c2, c3, c4, c5]"
    using six_elements [OF l(1)] by blast
  obtain e0 e1 e2 e3 e4 e5 where e: "egt = [e0, e1, e2, e3, e4, e5]"
    using six_elements [OF l(2)] by blast
  have h: "take 12 f = [0, 0, 0, 1, 0, 0, 0, 100, 0, 0, 0, 0]"
    by (simp add: f u32_be_1 u32_be_100 u32_be_0)
  have d: "drop 16 f = payload"
    by (simp add: f)
  have n: "be_to_int (take 4 (drop 12 f)) = int (length (drop 16 f))"
    using be_to_int_u32_be [OF fit] by (simp add: f del: be_to_int.simps)
  have b: "map unat payload =
          [123, 34, 99, 104, 116, 34, 58, 32, 91]
          @ map of_char (env_float_repr en c0) @ [44, 32] @ map of_char (env_float_repr en c1) @ [44, 32]
          @ map of_char (env_float_repr en c2) @ [44, 32] @ map of_char (env_float_repr en c3) @ [44, 32]
          @ map of_char (env_float_repr en c4) @ [44, 32] @ map of_char (env_float_repr en c5)
          @ [93, 44, 32, 34, 101, 103, 116, 34, 58, 32, 91]
          @ map of_char (env_float_repr en e0) @ [44, 32] @ map of_char (env_float_repr en e1) @ [44, 32]
          @ map of_char (env_float_repr en e2) @ [44, 32] @ map of_char (env_float_repr en e3) @ [44, 32]
          @ map of_char (env_float_repr en e4) @ [44, 32] @ map of_char (env_float_repr en e5)
          @ [93, 44, 32, 34, 116, 105, 109, 101, 115, 116, 97, 109, 112, 34, 58, 32]
          @ map of_char (env_float_repr en t)
          @ [44, 32, 34, 117, 110, 105, 116, 34, 58, 32, 34, 70, 34, 125]"
    by (simp add: p c e unat_encode_utf8 json_dumps_def quoted_def)
  show ?thesis
    unfolding is_json_snapshot_frame_def
    using h n b unfolding d by blast
qed

text \<open>The first frame of a simulated run, with floats printed as Python prints them.\<close>

lemma decimal_15: "decimal 15 = ''15''"
  by (simp add: decimal.simps [of 15] decimal.simps [of 1])

lemma decimal_350: "decimal 350 = ''350''"
  by (simp add: decimal.simps [of 350] decimal.simps [of 35] decimal.simps [of 3])

lemma decimal_1350: "decimal 1350 = ''1350''"
  by (simp add: decimal.simps [of 1350] decimal.simps [of 135] decimal.simps [of 13]
      decimal.simps [of 1])

lemma repr_whole_examples:
  "repr_whole 15 = ''15.0''" "repr_whole 350 = ''350.0''" "repr_whole 1350 = ''1350.0''"
  by (simp_all add: repr_whole_def decimal_15 decimal_350 decimal_1350)

lemma sim_whole_cht:
  "read_cht_probe sim_reader env_whole i w =
     (350, w\<lparr>trace := trace w @ [EvRandom (1 / 2)], n_random := Suc (n_random w)\<rparr>)"
  by (simp add: read_cht_probe_def read_cht_probe_try_def sim_reader_sensors
      random_uniform_def env_whole_def env_quiet_def Let_def)

lemma sim_whole_egt:
  "read_egt_probe sim_reader env_whole i w =
     (1350, w\<lparr>trace := trace w @ [EvRandom (1 / 2)], n_random := Suc (n_random w)\<rparr>)"
  by (simp add: read_egt_probe_def read_egt_probe_try_def sim_reader_sensors
      random_uniform_def env_whole_def env_quiet_def Let_def)

lemma sim_whole_sweep:
  "read_temperature_data sim_reader env_whole w =
     ([(''cht'', JList (map JFloat [350, 350, 350, 350, 350, 350])),
       (''egt'', JList (map JFloat [1350, 1350, 1350, 1350, 1350, 1350])),
       (''timestamp'', JFloat (real (length (trace w)) + 12)),
       (''unit'', JStr ''F'')],
      w\<lparr>trace := trace w @
         [EvRandom (1 / 2), EvRandom (1 / 2), EvRandom (1 / 2), EvRandom (1 / 2),
          EvRandom (1 / 2), EvRandom (1 / 2), EvRandom (1 / 2), EvRandom (1 / 2),
          EvRandom (1 / 2), EvRandom (1 / 2), EvRandom (1 / 2), EvRandom (1 / 2),
          EvTime (real (length (trace w)) + 12)], n_random := n_random w + 12\<rparr>)"
  by (simp add: read_temperature_data_def py_range_6 sim_whole_cht sim_whole_egt
      time_time_def emit_def Let_def)
    (simp add: env_whole_def env_quiet_def)

lemma whole_payload:
  "payload_bytes_of env_whole (PDict
     [(''cht'', JList [JFloat 350, JFloat 350, JFloat 350, JFloat 350, JFloat 350, JFloat 350]),
      (''egt'', JList [JFloat 1350, JFloat 1350, JFloat 1350, JFloat 1350, JFloat 1350,
                       JFloat 1350]),
      (''timestamp'', JFloat 15), (''unit'', JStr ''F'')]) =
      [123, 34, 99, 104, 116, 34, 58, 32, 91, 51, 53, 48, 46, 48, 44, 32, 51, 53, 48, 46,
       48, 44, 32, 51, 53, 48, 46, 48, 44, 32, 51, 53, 48, 46, 48, 44, 32, 51, 53, 48, 46,
       48, 44, 32, 51, 53, 48, 46, 48, 93, 44, 32, 34, 101, 103, 116, 34, 58, 32, 91, 49,
       51, 53, 48, 46, 48, 44, 32, 49, 51, 53, 48, 46, 48, 44, 32, 49, 51, 53, 48, 46, 48,
       44, 32, 49, 51, 53, 48, 46, 48, 44, 32, 49, 51, 53, 48, 46, 48, 44, 32, 49, 51, 53,
       48, 46, 48, 93, 44, 32, 34, 116, 105, 109, 101, 115, 116, 97, 109, 112, 34, 58, 32,
       49, 53, 46, 48, 44, 32, 34, 117, 110, 105, 116, 34, 58, 32, 34, 70, 34, 125]"
  by (simp add: payload_bytes_of_def json_dumps_def env_whole_def repr_whole_examples
      quoted_def encode_utf8_def)

lemma whole_first_frame:
  "frames_written (trace (snd (main (Suc (Suc 0)) sim_reader env_whole))) =
     [[0, 0, 0, 1, 0, 0, 0, 100, 0, 0, 0, 0, 0, 0, 0, 140, 123, 34, 99, 104, 116, 34, 58,
       32, 91, 51, 53, 48, 46, 48, 44, 32, 51, 53, 48, 46, 48, 44, 32, 51, 53, 48, 46, 48,
       44, 32, 51, 53, 48, 46, 48, 44, 32, 51, 53, 48, 46, 48, 44, 32, 51, 53, 48, 46, 48,
       93, 44, 32, 34, 101, 103, 116, 34, 58, 32, 91, 49, 51, 53, 48, 46, 48, 44, 32, 49,
       51, 53, 48, 46, 48, 44, 32, 49, 51, 53, 48, 46, 48, 44, 32, 49, 51, 53, 48, 46, 48,
       44, 32, 49, 51, 53, 48, 46, 48, 44, 32, 49, 51, 53, 48, 46, 48, 93, 44, 32, 34,
       116, 105, 109, 101, 115, 116, 97, 109, 112, 34, 58, 32, 49, 53, 46, 48, 44, 32, 34,
       117, 110, 105, 116, 34, 58, 32, 34, 70, 34, 125]]"
proof -
  let ?wb = "print_log LogStartStreaming
      (world0\<lparr>trace := [EvConnect 0 None, EvLog LogConnected], n_connect := Suc 0\<rparr>)"
  have c: "connect_to_ipad env_whole world0 =
      (Inr (Some 0), world0\<lparr>trace := [EvConnect 0 None, EvLog LogConnected], n_connect := Suc 0\<rparr>)"
    by (simp add: connect_to_ipad_def env_whole_def env_quiet_def world0_def print_log_def
        emit_def Let_def)
  have fit: "fits_u32 140"
    by (simp add: fits_u32_def)
  have h: "u32_be 1 @ u32_be 100 @ u32_be 0 @ u32_be 140 =
      [0, 0, 0, 1, 0, 0, 0, 100, 0, 0, 0, 0, 0, 0, 0, 140]"
    by (simp add: u32_be_def)
  have s: "env_sendall env_whole n = None" "env_sleep env_whole n = None" for n
    by (simp_all add: env_whole_def env_quiet_def)
  have len: "length (trace ?wb) = 3"
    by (simp add: print_log_def emit_def world0_def)
  have "\<exists>w1. stream_try sim_reader env_whole 0 0 ?wb = (Inr False, Suc 0, w1)
      \<and> frames_written (trace w1) = frames_written (trace ?wb) @
     [[0, 0, 0, 1, 0, 0, 0, 100, 0, 0, 0, 0, 0, 0, 0, 140, 123, 34, 99, 104, 116, 34, 58,
       32, 91, 51, 53, 48, 46, 48, 44, 32, 51, 53, 48, 46, 48, 44, 32, 51, 53, 48, 46, 48,
       44, 32, 51, 53, 48, 46, 48, 44, 32, 51, 53, 48, 46, 48, 44, 32, 51, 53, 48, 46, 48,
       93, 44, 32, 34, 101, 103, 116, 34, 58, 32, 91, 49, 51, 53, 48, 46, 48, 44, 32, 49,
       51, 53, 48, 46, 48, 44, 32, 49, 51, 53, 48, 46, 48, 44, 32, 49, 51, 53, 48, 46, 48,
       44, 32, 49, 51, 53, 48, 46, 48, 44, 32, 49, 51, 53, 48, 46, 48, 93, 44, 32, 34,
       116, 105, 109, 101, 115, 116, 97, 109, 112, 34, 58, 32, 49, 53, 46, 48, 44, 32, 34,
       117, 110, 105, 116, 34, 58, 32, 34, 70, 34, 125]]"
    unfolding stream_try_def sim_whole_sweep len
    by (simp add: send_peertalk_frame_def whole_payload
        struct_pack_IIII_def fit FRAME_TYPE_TEMPERATURE_def PTPROTOCOL_VERSION_def
        sock_sendall_def s stream_sleep_def time_sleep_def print_log_def emit_def Let_def
        h [simplified])
  then obtain w1 where t: "stream_try sim_reader env_whole 0 0 ?wb = (Inr False, Suc 0, w1)"
    and f: "frames_written (trace w1) = frames_written (trace ?wb) @
     [[0, 0, 0, 1, 0, 0, 0, 100, 0, 0, 0, 0, 0, 0, 0, 140, 123, 34, 99, 104, 116, 34, 58,
       32, 91, 51, 53, 48, 46, 48, 44, 32, 51, 53, 48, 46, 48, 44, 32, 51, 53, 48, 46, 48,
       44, 32, 51, 53, 48, 46, 48, 44, 32, 51, 53, 48, 46, 48, 44, 32, 51, 53, 48, 46, 48,
       93, 44, 32, 34, 101, 103, 116, 34, 58, 32, 91, 49, 51, 53, 48, 46, 48, 44, 32, 49,
       51, 53, 48, 46, 48, 44, 32, 49, 51, 53, 48, 46, 48, 44, 32, 49, 51, 53, 48, 46, 48,
       44, 32, 49, 51, 53, 48, 46, 48, 44, 32, 49, 51, 53, 48, 46, 48, 93, 44, 32, 34,
       116, 105, 109, 101, 115, 116, 97, 109, 112, 34, 58, 32, 49, 53, 46, 48, 44, 32, 34,
       117, 110, 105, 116, 34, 58, 32, 34, 70, 34, 125]]"
    by blast
  have "stream_loop (Suc 0) sim_reader env_whole 0 0 ?wb =
      stream_loop 0 sim_reader env_whole 0 (Suc 0) w1"
    by (rule stream_loop_continue [OF t])
  then have l: "stream_loop (Suc 0) sim_reader env_whole 0 0 ?wb = (False, Suc 0, w1)"
    by simp
  have "main_try (Suc 0) sim_reader env_whole world0 = (None, w1)"
    by (simp add: main_try_def c l del: stream_loop.simps)
  then have m: "main (Suc (Suc 0)) sim_reader env_whole = (OutOfFuel, w1)"
    by (simp add: main_def)
  have "frames_written (trace ?wb) = []"
    by (simp add: print_log_def emit_def world0_def)
  then show ?thesis
    using m f by simp
qed

text \<open>
  C9. Every frame written in a run of \<open>main\<close>, for every reader, environment
  and amount of fuel, is a temperature frame spelled out in bytes: version 1,
  type 100, tag 0, the length of the payload, and as payload the character
  codes of the JSON text of an object with exactly the keys \<open>cht\<close>, \<open>egt\<close>,
  \<open>timestamp\<close> and \<open>unit\<close> in this order, where \<open>cht\<close> and \<open>egt\<close> are
  arrays of six printed floats, \<open>timestamp\<close> is a printed float and \<open>unit\<close> is
  the string \<open>F\<close>. The text is ASCII, so these codes are its UTF-8 encoding.
\<close>

theorem temperature_frames_carry_json_snapshot:
  "list_all (is_json_snapshot_frame (env_float_repr en))
     (frames_written (trace (snd (main fuel rd en))))"
  using main_frames [of en fuel rd] temperature_frame_bytes [of en]
  by (simp add: list_all_iff)

theorem temperature_frames_carry_json_snapshot_witness:
  "\<exists>frame. frames_written (trace (snd (main (Suc (Suc 0)) sim_reader env_whole))) = [frame]
      \<and> frame =
      [0, 0, 0, 1, 0, 0, 0, 100, 0, 0, 0, 0, 0, 0, 0, 140, 123, 34, 99, 104, 116, 34, 58,
       32, 91, 51, 53, 48, 46, 48, 44, 32, 51, 53, 48, 46, 48, 44, 32, 51, 53, 48, 46, 48,
       44, 32, 51, 53, 48, 46, 48, 44, 32, 51, 53, 48, 46, 48, 44, 32, 51, 53, 48, 46, 48,
       93, 44, 32, 34, 101, 103, 116, 34, 58, 32, 91, 49, 51, 53, 48, 46, 48, 44, 32, 49,
       51, 53, 48, 46, 48, 44, 32, 49, 51, 53, 48, 46, 48, 44, 32, 49, 51, 53, 48, 46, 48,
       44, 32, 49, 51, 53, 48, 46, 48, 44, 32, 49, 51, 53, 48, 46, 48, 93, 44, 32, 34,
       116, 105, 109, 101, 115, 116, 97, 109, 112, 34, 58, 32, 49, 53, 46, 48, 44, 32, 34,
       117, 110, 105, 116, 34, 58, 32, 34, 70, 34, 125]
      \<and> is_json_snapshot_frame repr_whole frame"
proof -
  have "list_all (is_json_snapshot_frame (env_float_repr env_whole))
     (frames_written (trace (snd (main (Suc (Suc 0)) sim_reader env_whole))))"
    by (rule temperature_frames_carry_json_snapshot)
  moreover have "env_float_repr env_whole = repr_whole"
    by (simp add: env_whole_def)
  ultimately show ?thesis
    unfolding whole_first_frame by simp
qed

end
